theory Spec2Isabelle
  imports Main "HOL-Library.Word" "HOL-Library.Char_ord" "HOL-Library.List_Lexorder"
begin

section \<open>Payload decompression (filter\_example.js, index.js, filter\_example.go)\<close>

text \<open>
  A payload is a sequence of bytes. The zstd library and the UTF-8 decoder of
  \<^verbatim>\<open>Buffer.toString('utf8')\<close> are external: both are parameters of the model.
  \<open>zd bs = None\<close> stands for the library rejecting \<open>bs\<close> (a rejected promise in
  JavaScript, a non-nil \<open>err\<close> in Go).
\<close>

type_synonym byte = "8 word"

datatype jsval = Buffer "byte list" | Str string | Undefined | Null

datatype error = ZstdError

text \<open>The test \<^verbatim>\<open>data[0] === 0x28 && data[1] === 0xB5 && data[2] === 0x2F && data[3] === 0xFD\<close>,
  reached only when the buffer holds at least four bytes.\<close>

fun magic :: "byte list \<Rightarrow> bool" where
  "magic (b0 # b1 # b2 # b3 # rest) = (b0 = 0x28 \<and> b1 = 0xB5 \<and> b2 = 0x2F \<and> b3 = 0xFD)"
| "magic _ = False"

text \<open>
  \<^verbatim>\<open>
  async function decompress(data) {
    if (!Buffer.isBuffer(data) || data.length < 4) return data;
    if (data[0] === 0x28 && data[1] === 0xB5 && data[2] === 0x2F && data[3] === 0xFD) {
      return (await zstd.decompress(data)).toString('utf8');
    }
    return data.toString('utf8');
  }
  \<close>
\<close>

fun decompress :: "(byte list \<Rightarrow> byte list option) \<Rightarrow> (byte list \<Rightarrow> string) \<Rightarrow> jsval \<Rightarrow> error + jsval" where
  "decompress zd utf8 (Buffer bs) =
     (if length bs < 4 then Inr (Buffer bs)
      else if magic bs then
        (case zd bs of None \<Rightarrow> Inl ZstdError | Some out \<Rightarrow> Inr (Str (utf8 out)))
      else Inr (Str (utf8 bs)))"
| "decompress zd utf8 v = Inr v"

text \<open>
  The Go version works on a byte slice and returns a Go string, which is the same bytes:
  \<^verbatim>\<open>
  func decompress(data []byte) (string, error) {
    if len(data) >= 4 && data[0] == 0x28 && data[1] == 0xB5 && data[2] == 0x2F && data[3] == 0xFD {
      decoder, _ := zstd.NewReader(nil)
      defer decoder.Close()
      decompressed, err := decoder.DecodeAll(data, nil)
      if err != nil { return "", err }
      return string(decompressed), nil
    }
    return string(data), nil
  }
  \<close>
\<close>

definition go_decompress :: "(byte list \<Rightarrow> byte list option) \<Rightarrow> byte list \<Rightarrow> error + byte list" where
  "go_decompress zd data =
     (if length data \<ge> 4 \<and> magic data then
        (case zd data of None \<Rightarrow> Inl ZstdError | Some out \<Rightarrow> Inr out)
      else Inr data)"

text \<open>
  The data handlers. A response carries a data unit, a pong, or neither. What a handler
  prints is the result of the model; \<open>parse\<close> is \<^verbatim>\<open>JSON.parse\<close>, \<open>None\<close> when it
  throws. \<^verbatim>\<open>JSON.parse\<close> and a template literal first convert their argument to a
  string, which for a Buffer is its UTF-8 text; \<^verbatim>\<open>console.log\<close> prints a string as it
  is and any other value by inspection (\<^verbatim>\<open><Buffer 68 69>\<close> for a Buffer).
\<close>

record data_unit =
  block_number :: nat
  timestamp :: nat
  payload :: jsval

datatype response = Data data_unit | Pong nat | Empty

fun toText :: "(byte list \<Rightarrow> string) \<Rightarrow> jsval \<Rightarrow> string" where
  "toText utf8 (Buffer bs) = utf8 bs"
| "toText utf8 (Str s) = s"
| "toText utf8 Undefined = ''undefined''"
| "toText utf8 Null = ''null''"

datatype 'j printed =
    PrintText string
  | PrintInspected jsval
  | PrintJson 'j
  | PrintBlock nat
  | PrintBlockTimestamp nat nat
  | PrintBlockText nat string
  | PrintPong nat
  | Rejected error

fun console_log :: "jsval \<Rightarrow> 'j printed" where
  "console_log (Str s) = PrintText s"
| "console_log v = PrintInspected v"

text \<open>
  index.js:
  \<^verbatim>\<open>
  call.on('data', async (response) => {
    if (response.data) {
      const { block_number, timestamp, data } = response.data;
      const decompressed = await decompress(data);
      try {
        const parsed = JSON.parse(decompressed);
        console.log(`\nBlock ${block_number} | Timestamp ${timestamp}`);
        console.log(JSON.stringify(parsed, null, 2));
      } catch {
        console.log(`Block ${block_number}: ${decompressed}`);
      }
    } else if (response.pong) {
      console.log(`Pong: ${response.pong.timestamp}`);
    }
  });
  \<close>
  When \<^verbatim>\<open>decompress\<close> fails, the promise of the handler is rejected.
\<close>

fun on_data :: "(byte list \<Rightarrow> byte list option) \<Rightarrow> (byte list \<Rightarrow> string) \<Rightarrow> (string \<Rightarrow> 'j option) \<Rightarrow>
    response \<Rightarrow> 'j printed list" where
  "on_data zd utf8 parse (Data d) =
     (case decompress zd utf8 (payload d) of
        Inl e \<Rightarrow> [Rejected e]
      | Inr decompressed \<Rightarrow>
          (case parse (toText utf8 decompressed) of
             Some parsed \<Rightarrow> [PrintBlockTimestamp (block_number d) (timestamp d), PrintJson parsed]
           | None \<Rightarrow> [PrintBlockText (block_number d) (toText utf8 decompressed)]))"
| "on_data zd utf8 parse (Pong t) = [PrintPong t]"
| "on_data zd utf8 parse Empty = []"

text \<open>
  filter\_example.js:
  \<^verbatim>\<open>
  call.on('data', async (response) => {
    if (response.data) {
      const decompressed = await decompress(response.data.data);
      try {
        const parsed = JSON.parse(decompressed);
        console.log(`Block ${response.data.block_number}:`);
        console.log(JSON.stringify(parsed, null, 2));
      } catch {
        console.log(decompressed);
      }
    }
  });
  \<close>
\<close>

fun filter_on_data :: "(byte list \<Rightarrow> byte list option) \<Rightarrow> (byte list \<Rightarrow> string) \<Rightarrow> (string \<Rightarrow> 'j option) \<Rightarrow>
    response \<Rightarrow> 'j printed list" where
  "filter_on_data zd utf8 parse (Data d) =
     (case decompress zd utf8 (payload d) of
        Inl e \<Rightarrow> [Rejected e]
      | Inr decompressed \<Rightarrow>
          (case parse (toText utf8 decompressed) of
             Some parsed \<Rightarrow> [PrintBlock (block_number d), PrintJson parsed]
           | None \<Rightarrow> [console_log decompressed]))"
| "filter_on_data zd utf8 parse (Pong t) = []"
| "filter_on_data zd utf8 parse Empty = []"

text \<open>
  filter\_example.go, the body of the receive loop for a response with data; the error of
  \<^verbatim>\<open>decompress\<close> is dropped, which leaves the empty string:
  \<^verbatim>\<open>
  decompressed, _ := decompress(data.Data)
  var parsed interface{}
  if json.Unmarshal([]byte(decompressed), &parsed) == nil {
    pretty, _ := json.MarshalIndent(parsed, "", "  ")
    fmt.Printf("Block %d:\n%s\n", data.BlockNumber, pretty)
  }
  \<close>
  Here \<open>parse\<close> is \<^verbatim>\<open>json.Unmarshal\<close> on the bytes of the Go string.
\<close>

definition go_on_data :: "(byte list \<Rightarrow> byte list option) \<Rightarrow> (byte list \<Rightarrow> 'j option) \<Rightarrow> nat \<Rightarrow> byte list \<Rightarrow> 'j printed list" where
  "go_on_data zd parse blockNumber data =
     (let decompressed = (case go_decompress zd data of Inl e \<Rightarrow> [] | Inr s \<Rightarrow> s)
      in case parse decompressed of
           Some parsed \<Rightarrow> [PrintBlock blockNumber, PrintJson parsed]
         | None \<Rightarrow> [])"

text \<open>
  Collaborators for concrete evaluation. \<open>sample_frame\<close> is the zstd frame of the two
  bytes \<open>{}\<close>: magic number, frame header \<open>20 02\<close> (single segment, content size 2),
  block header \<open>11 00 00\<close> (last block, raw, size 2), content \<open>7B 7D\<close>. \<open>sample_zd\<close>
  decodes that frame and rejects every other buffer; it is used on \<open>sample_frame\<close> and
  on the bare magic number, a truncated frame, where it agrees with the zstd library.
  \<open>ascii\<close> is the UTF-8 decoder on bytes below 128. \<open>sample_json\<close> accepts the JSON
  texts \<open>{}\<close> and \<open>{ }\<close> only; it is used on these and on texts that are not JSON,
  where it agrees with \<^verbatim>\<open>JSON.parse\<close> and \<^verbatim>\<open>json.Unmarshal\<close>.
\<close>

definition sample_frame :: "byte list" where
  "sample_frame = [0x28, 0xB5, 0x2F, 0xFD, 0x20, 0x02, 0x11, 0x00, 0x00, 0x7B, 0x7D]"

definition sample_zd :: "byte list \<Rightarrow> byte list option" where
  "sample_zd bs = (if bs = sample_frame then Some [0x7B, 0x7D] else None)"

definition ascii :: "byte list \<Rightarrow> string" where
  "ascii bs = map (\<lambda>b. char_of (unat b)) bs"

definition sample_json :: "string \<Rightarrow> string option" where
  "sample_json s = (if s = ''{}'' \<or> s = ''{ }'' then Some s else None)"

definition plain_hi :: data_unit where
  "plain_hi = \<lparr>block_number = 7, timestamp = 0, payload = Buffer [0x68, 0x69]\<rparr>"

definition plain_hello :: data_unit where
  "plain_hello = \<lparr>block_number = 7, timestamp = 0, payload = Buffer [0x68, 0x65, 0x6C, 0x6C, 0x6F]\<rparr>"

definition plain_empty :: data_unit where
  "plain_empty = \<lparr>block_number = 7, timestamp = 0, payload = Buffer []\<rparr>"

section \<open>Backfill from object storage (s3\_blocks\_backfill.js, s3\_blocks\_backfill.go)\<close>

definition BLOCKS_PREFIX :: string where
  "BLOCKS_PREFIX = ''replica_cmds''"

text \<open>\<^verbatim>\<open>String.prototype.split\<close> with a one-character separator: the pieces between the
  separators, so a string without separator gives one piece, and so does the empty string.\<close>

fun split_on :: "char \<Rightarrow> string \<Rightarrow> string list" where
  "split_on c [] = [[]]"
| "split_on c (x # xs) =
     (if x = c then [] # split_on c xs
      else (case split_on c xs of [] \<Rightarrow> [[x]] | y # ys \<Rightarrow> (x # y) # ys))"

text \<open>\<^verbatim>\<open>s.replace(pat, rep)\<close> with a string pattern replaces the first occurrence only.\<close>

fun replace_first :: "string \<Rightarrow> string \<Rightarrow> string \<Rightarrow> string" where
  "replace_first pat rep [] = (if pat = [] then rep else [])"
| "replace_first pat rep (c # cs) =
     (if take (length pat) (c # cs) = pat then rep @ drop (length pat) (c # cs)
      else c # replace_first pat rep cs)"

definition is_digit :: "char \<Rightarrow> bool" where
  "is_digit c = (CHR ''0'' \<le> c \<and> c \<le> CHR ''9'')"

definition digit_val :: "char \<Rightarrow> int" where
  "digit_val c = int (of_char c) - 48"

text \<open>
  The numbers of the JavaScript version are doubles. \<^verbatim>\<open>parseInt\<close>, the comparison
  \<^verbatim>\<open><=\<close> and \<^verbatim>\<open>+\<close> belong to the language, not to this program, so the model takes
  them from outside: the type \<open>'n\<close> stands for the numbers other than \<^verbatim>\<open>NaN\<close>, in
  their order, \<open>pint\<close> is \<^verbatim>\<open>s => parseInt(s, 10)\<close> with \<open>None\<close> for \<^verbatim>\<open>NaN\<close>, and a
  number that may be \<^verbatim>\<open>NaN\<close> is an \<open>'n option\<close>.
\<close>

record 'n block_range =
  checkpoint :: string
  date :: string
  startBlock :: "'n option"
  endBlock :: "'n option"
  s3Key :: string

text \<open>
  \<^verbatim>\<open>
  function parseBlockRange(key) {
    const parts = key.split("/");
    if (parts.length !== 4 || parts[0] !== BLOCKS_PREFIX) return null;
    const [start, end] = parts[3].split("-");
    if (!start || !end) return null;
    return { checkpoint: parts[1], date: parts[2],
             startBlock: parseInt(start, 10), endBlock: parseInt(end, 10), s3Key: key };
  }
  \<close>
\<close>

definition parseBlockRange :: "(string \<Rightarrow> 'n option) \<Rightarrow> string \<Rightarrow> 'n block_range option" where
  "parseBlockRange pint key =
     (case split_on CHR ''/'' key of
        [p0, p1, p2, p3] \<Rightarrow>
          if p0 \<noteq> BLOCKS_PREFIX then None
          else (case split_on CHR ''-'' p3 of
                  start # end # _ \<Rightarrow>
                    if start = [] \<or> end = [] then None
                    else Some \<lparr>checkpoint = p1, date = p2, startBlock = pint start,
                                endBlock = pint end, s3Key = key\<rparr>
                | _ \<Rightarrow> None)
      | _ \<Rightarrow> None)"

text \<open>
  The object store is external: \<open>s3 prefix\<close> is the answer to one
  \<^verbatim>\<open>ListObjectsV2\<close> call, \<open>None\<close> when the call throws. An entry without
  \<^verbatim>\<open>Prefix\<close> or \<^verbatim>\<open>Key\<close> is the empty string here (both are skipped by the
  truthiness test of the source).
\<close>

record s3_listing =
  CommonPrefixes :: "string list"
  Contents :: "string list"

text \<open>
  \<^verbatim>\<open>
  async function listS3(prefix) {
    try {
      const response = await s3.send(new ListObjectsV2Command({...}));
      const items = [];
      for (const p of response.CommonPrefixes || []) {
        if (p.Prefix) {
          const name = p.Prefix.replace(prefix, "").replace("/", "");
          if (name) items.push(name);
        }
      }
      for (const obj of response.Contents || []) {
        if (obj.Key) {
          const name = obj.Key.replace(prefix, "");
          if (name) items.push(name);
        }
      }
      return items.sort();
    } catch (err) { console.error("S3 error:", err.message); return []; }
  }
  \<close>
\<close>

definition dir_name :: "string \<Rightarrow> string \<Rightarrow> string" where
  "dir_name prefix p = replace_first ''/'' [] (replace_first prefix [] p)"

definition file_name :: "string \<Rightarrow> string \<Rightarrow> string" where
  "file_name prefix k = replace_first prefix [] k"

definition listS3 :: "(string \<Rightarrow> s3_listing option) \<Rightarrow> string \<Rightarrow> string list" where
  "listS3 s3 prefix =
     (case s3 prefix of
        None \<Rightarrow> []
      | Some response \<Rightarrow>
          sort (filter (\<lambda>name. name \<noteq> [])
                  (map (dir_name prefix) (filter (\<lambda>p. p \<noteq> []) (CommonPrefixes response)))
                @ filter (\<lambda>name. name \<noteq> [])
                  (map (file_name prefix) (filter (\<lambda>k. k \<noteq> []) (Contents response)))))"

text \<open>The test \<^verbatim>\<open>br.startBlock <= targetBlock && targetBlock <= br.endBlock\<close>; a comparison
  with \<^verbatim>\<open>NaN\<close> is false.\<close>

definition covers :: "('n::linorder) block_range \<Rightarrow> 'n option \<Rightarrow> bool" where
  "covers br targetBlock =
     (case startBlock br of
        None \<Rightarrow> False
      | Some s \<Rightarrow>
          (case endBlock br of
             None \<Rightarrow> False
           | Some e \<Rightarrow> (case targetBlock of None \<Rightarrow> False | Some t \<Rightarrow> s \<le> t \<and> t \<le> e)))"

definition file_key :: "string \<Rightarrow> string \<Rightarrow> string \<Rightarrow> string" where
  "file_key ckpt d file = BLOCKS_PREFIX @ ''/'' @ ckpt @ ''/'' @ d @ ''/'' @ file"

text \<open>
  \<^verbatim>\<open>
  async function findBlockFile(targetBlock) {
    const checkpoints = await listS3(`${BLOCKS_PREFIX}/`);
    if (checkpoints.length === 0) return null;
    const checkpoint = checkpoints[checkpoints.length - 1];
    const dates = await listS3(`${BLOCKS_PREFIX}/${checkpoint}/`);
    for (const date of dates) {
      const files = await listS3(`${BLOCKS_PREFIX}/${checkpoint}/${date}/`);
      for (const file of files) {
        const br = parseBlockRange(`${BLOCKS_PREFIX}/${checkpoint}/${date}/${file}`);
        if (br && br.startBlock <= targetBlock && targetBlock <= br.endBlock) return br;
      }
    }
    return null;
  }
  \<close>
  The two loops are \<open>scan_dates\<close> and \<open>scan_files\<close>.
\<close>

fun scan_files :: "(string \<Rightarrow> 'n option) \<Rightarrow> ('n::linorder) option \<Rightarrow> string \<Rightarrow> string \<Rightarrow> string list \<Rightarrow>
    'n block_range option" where
  "scan_files pint targetBlock ckpt d [] = None"
| "scan_files pint targetBlock ckpt d (file # files) =
     (case parseBlockRange pint (file_key ckpt d file) of
        None \<Rightarrow> scan_files pint targetBlock ckpt d files
      | Some br \<Rightarrow> if covers br targetBlock then Some br else scan_files pint targetBlock ckpt d files)"

fun scan_dates :: "(string \<Rightarrow> 'n option) \<Rightarrow> (string \<Rightarrow> s3_listing option) \<Rightarrow> ('n::linorder) option \<Rightarrow> string \<Rightarrow>
    string list \<Rightarrow> 'n block_range option" where
  "scan_dates pint s3 targetBlock ckpt [] = None"
| "scan_dates pint s3 targetBlock ckpt (d # dates) =
     (case scan_files pint targetBlock ckpt d (listS3 s3 (BLOCKS_PREFIX @ ''/'' @ ckpt @ ''/'' @ d @ ''/'')) of
        Some br \<Rightarrow> Some br
      | None \<Rightarrow> scan_dates pint s3 targetBlock ckpt dates)"

definition findBlockFile :: "(string \<Rightarrow> 'n option) \<Rightarrow> (string \<Rightarrow> s3_listing option) \<Rightarrow> ('n::linorder) option \<Rightarrow>
    'n block_range option" where
  "findBlockFile pint s3 targetBlock =
     (let checkpoints = listS3 s3 (BLOCKS_PREFIX @ ''/'')
      in if checkpoints = [] then None
         else scan_dates pint s3 targetBlock (last checkpoints)
                (listS3 s3 (BLOCKS_PREFIX @ ''/'' @ last checkpoints @ ''/'')))"

text \<open>
  \<^verbatim>\<open>
  let lineNumber = 0;
  for await (const line of rl) {
    if (line.trim()) {
      try {
        yield { blockNumber: blockRange.startBlock + lineNumber, data: JSON.parse(line) };
      } catch { /* Skip malformed lines */ }
      lineNumber++;
    }
  }
  \<close>
  The lines of the object are the input. Three things come from outside: \<open>blank line\<close>
  says that \<^verbatim>\<open>line.trim()\<close> is the empty string (in Go, that
  \<^verbatim>\<open>strings.TrimSpace(line) == ""\<close>), \<open>parse\<close> is \<^verbatim>\<open>JSON.parse\<close> (\<^verbatim>\<open>json.Unmarshal\<close>),
  \<open>None\<close> when it fails, and \<open>add start k\<close> is the sum
  \<^verbatim>\<open>blockRange.startBlock + lineNumber\<close> in the numbers of the language. The Go version
  counts in the same way:
  \<^verbatim>\<open>
  lineNumber := int64(0)
  for scanner.Scan() {
    line := scanner.Text()
    if strings.TrimSpace(line) == "" { continue }
    var data map[string]interface{}
    if err := json.Unmarshal([]byte(line), &data); err != nil { lineNumber++; continue }
    ch <- Block{BlockNumber: blockRange.StartBlock + lineNumber, Data: data}
    lineNumber++
  }
  \<close>
\<close>

fun streamBlocks_from :: "(string \<Rightarrow> bool) \<Rightarrow> (string \<Rightarrow> 'j option) \<Rightarrow> ('n \<Rightarrow> nat \<Rightarrow> 'n) \<Rightarrow> 'n \<Rightarrow> nat \<Rightarrow>
    string list \<Rightarrow> ('n \<times> 'j) list" where
  "streamBlocks_from blank parse add start lineNumber [] = []"
| "streamBlocks_from blank parse add start lineNumber (line # rest) =
     (if \<not> blank line then
        (case parse line of
           Some d \<Rightarrow> (add start lineNumber, d) # streamBlocks_from blank parse add start (lineNumber + 1) rest
         | None \<Rightarrow> streamBlocks_from blank parse add start (lineNumber + 1) rest)
      else streamBlocks_from blank parse add start lineNumber rest)"

definition streamBlocks :: "(string \<Rightarrow> bool) \<Rightarrow> (string \<Rightarrow> 'j option) \<Rightarrow> ('n \<Rightarrow> nat \<Rightarrow> 'n) \<Rightarrow> 'n \<Rightarrow>
    string list \<Rightarrow> ('n \<times> 'j) list" where
  "streamBlocks blank parse add start lines = streamBlocks_from blank parse add start 0 lines"

text \<open>The numbering the interface description gives: the record on line \<open>k\<close> of the file
  (counting every line, from zero) has number \<open>start + k\<close>.\<close>

definition numbered_by_line_index :: "(string \<Rightarrow> bool) \<Rightarrow> (string \<Rightarrow> 'j option) \<Rightarrow> ('n \<Rightarrow> nat \<Rightarrow> 'n) \<Rightarrow> 'n \<Rightarrow>
    string list \<Rightarrow> ('n \<times> 'j) list" where
  "numbered_by_line_index blank parse add start lines =
     List.map_filter (\<lambda>(k, line). if \<not> blank line then map_option (Pair (add start k)) (parse line) else None)
       (enumerate 0 lines)"

text \<open>The key format the bucket documentation gives,
  \<^verbatim>\<open>replica_cmds/{CHECKPOINT_TIMESTAMP}/{DATE}/{BLOCK_RANGE_FILE}\<close> with a file name
  \<open>{start}-{end}\<close> of two decimal numbers, as in
  \<^verbatim>\<open>replica_cmds/1704067200/20240101/830000000-830010000\<close>.\<close>

definition spec_well_formed_key :: "string \<Rightarrow> bool" where
  "spec_well_formed_key key =
     (case split_on CHR ''/'' key of
        [p0, p1, p2, p3] \<Rightarrow>
          p0 = BLOCKS_PREFIX \<and>
          (case split_on CHR ''-'' p3 of
             [start, end] \<Rightarrow> start \<noteq> [] \<and> list_all is_digit start \<and> end \<noteq> [] \<and> list_all is_digit end
           | _ \<Rightarrow> False)
      | _ \<Rightarrow> False)"

text \<open>
  Collaborators for concrete evaluation, each used only where it agrees with the
  language: \<open>ascii_parseInt\<close> is \<^verbatim>\<open>parseInt(s, 10)\<close> on strings of ASCII characters
  with at most fifteen digits (leading ASCII white space is skipped, a sign is read, then
  the longest run of digits); \<open>ascii_blank\<close> is the blank test on lines of ASCII
  characters; \<open>int_add\<close> is the sum of numbers below \<open>2^53\<close>.
\<close>

definition is_space :: "char \<Rightarrow> bool" where
  "is_space c = (c = CHR 0x20 \<or> c = CHR 0x09 \<or> c = CHR 0x0A \<or> c = CHR 0x0B \<or> c = CHR 0x0C \<or> c = CHR 0x0D)"

definition ascii_blank :: "string \<Rightarrow> bool" where
  "ascii_blank s = (dropWhile is_space s = [])"

definition ascii_parseInt :: "string \<Rightarrow> int option" where
  "ascii_parseInt s =
     (let s1 = dropWhile is_space s;
          neg = (case s1 of [] \<Rightarrow> False | c # _ \<Rightarrow> c = CHR ''-'');
          s2 = (case s1 of [] \<Rightarrow> [] | c # r \<Rightarrow> if c = CHR ''-'' \<or> c = CHR ''+'' then r else s1);
          ds = takeWhile is_digit s2;
          v = foldl (\<lambda>a c. 10 * a + digit_val c) 0 ds
      in if ds = [] then None else Some (if neg then - v else v))"

definition int_add :: "int \<Rightarrow> nat \<Rightarrow> int" where
  "int_add start k = start + int k"

definition junk_s3 :: "string \<Rightarrow> s3_listing option" where
  "junk_s3 prefix =
     (if prefix = ''replica_cmds/'' then
        Some \<lparr>CommonPrefixes = [''replica_cmds/c/''], Contents = []\<rparr>
      else if prefix = ''replica_cmds/c/'' then
        Some \<lparr>CommonPrefixes = [''replica_cmds/c/d/''], Contents = []\<rparr>
      else if prefix = ''replica_cmds/c/d/'' then
        Some \<lparr>CommonPrefixes = [], Contents = [''replica_cmds/c/d/5x-9y-junk'']\<rparr>
      else None)"

definition junk_range :: "int block_range" where
  "junk_range = \<lparr>checkpoint = ''c'', date = ''d'', startBlock = Some 5, endBlock = Some 9,
     s3Key = ''replica_cmds/c/d/5x-9y-junk''\<rparr>"


definition sample_s3 :: "string \<Rightarrow> s3_listing option" where
  "sample_s3 prefix =
     (if prefix = ''replica_cmds/'' then
        Some \<lparr>CommonPrefixes = [''replica_cmds/1704067200/'', ''replica_cmds/1700000000/''], Contents = []\<rparr>
      else if prefix = ''replica_cmds/1704067200/'' then
        Some \<lparr>CommonPrefixes = [''replica_cmds/1704067200/20240101/''], Contents = []\<rparr>
      else if prefix = ''replica_cmds/1704067200/20240101/'' then
        Some \<lparr>CommonPrefixes = [], Contents = [''replica_cmds/1704067200/20240101/830000000-830010000'']\<rparr>
      else if prefix = ''replica_cmds/1700000000/'' then
        Some \<lparr>CommonPrefixes = [''replica_cmds/1700000000/20231115/''], Contents = []\<rparr>
      else if prefix = ''replica_cmds/1700000000/20231115/'' then
        Some \<lparr>CommonPrefixes = [], Contents = [''replica_cmds/1700000000/20231115/820000000-820010000'']\<rparr>
      else None)"

definition sample_range :: "int block_range" where
  "sample_range = \<lparr>checkpoint = ''1704067200'', date = ''20240101'',
     startBlock = Some 830000000, endBlock = Some 830010000,
     s3Key = ''replica_cmds/1704067200/20240101/830000000-830010000''\<rparr>"

subsection \<open>The Go version of the lookup\<close>

text \<open>\<^verbatim>\<open>strconv.ParseInt(s, 10, 64)\<close>: an optional sign, then decimal digits and nothing
  else, and a value that fits 64 bits; \<open>None\<close> is a non-nil error.\<close>

definition go_ParseInt :: "string \<Rightarrow> int option" where
  "go_ParseInt s =
     (let neg = (case s of [] \<Rightarrow> False | c # _ \<Rightarrow> c = CHR ''-'');
          ds = (case s of [] \<Rightarrow> [] | c # r \<Rightarrow> if c = CHR ''-'' \<or> c = CHR ''+'' then r else s);
          v = foldl (\<lambda>a c. 10 * a + digit_val c) 0 ds;
          n = (if neg then - v else v)
      in if ds = [] \<or> \<not> list_all is_digit ds then None
         else if - (2 ^ 63) \<le> n \<and> n < 2 ^ 63 then Some n else None)"

record go_BlockRange =
  Checkpoint :: string
  Date :: string
  StartBlock :: int
  EndBlock :: int
  S3Key :: string

text \<open>
  \<^verbatim>\<open>
  func ParseBlockRange(key string) *BlockRange {
    parts := strings.Split(key, "/")
    if len(parts) != 4 || parts[0] != BlocksPrefix { return nil }
    rangeParts := strings.Split(parts[3], "-")
    if len(rangeParts) != 2 { return nil }
    start, err1 := strconv.ParseInt(rangeParts[0], 10, 64)
    end, err2 := strconv.ParseInt(rangeParts[1], 10, 64)
    if err1 != nil || err2 != nil { return nil }
    return &BlockRange{Checkpoint: parts[1], Date: parts[2], StartBlock: start, EndBlock: end, S3Key: key}
  }
  \<close>
\<close>

definition ParseBlockRange :: "string \<Rightarrow> go_BlockRange option" where
  "ParseBlockRange key =
     (case split_on CHR ''/'' key of
        [p0, p1, p2, p3] \<Rightarrow>
          if p0 \<noteq> BLOCKS_PREFIX then None
          else (case split_on CHR ''-'' p3 of
                  [r0, r1] \<Rightarrow>
                    (case go_ParseInt r0 of
                       None \<Rightarrow> None
                     | Some start \<Rightarrow>
                         (case go_ParseInt r1 of
                            None \<Rightarrow> None
                          | Some end \<Rightarrow>
                              Some \<lparr>Checkpoint = p1, Date = p2, StartBlock = start,
                                    EndBlock = end, S3Key = key\<rparr>))
                | _ \<Rightarrow> None)
      | _ \<Rightarrow> None)"

definition TrimPrefix :: "string \<Rightarrow> string \<Rightarrow> string" where
  "TrimPrefix s p = (if take (length p) s = p then drop (length p) s else s)"

definition TrimSuffix :: "string \<Rightarrow> string \<Rightarrow> string" where
  "TrimSuffix s p = (if length p \<le> length s \<and> drop (length s - length p) s = p
                     then take (length s - length p) s else s)"

text \<open>
  \<^verbatim>\<open>
  result, err := client.ListObjectsV2(ctx, input)
  if err != nil { return nil, err }
  for _, p := range result.CommonPrefixes {
    name := strings.TrimPrefix(*p.Prefix, prefix)
    name = strings.TrimSuffix(name, "/")
    if name != "" { items = append(items, name) }
  }
  for _, obj := range result.Contents {
    name := strings.TrimPrefix(*obj.Key, prefix)
    if name != "" { items = append(items, name) }
  }
  sort.Strings(items)
  return items, nil
  \<close>
\<close>

definition go_listS3 :: "(string \<Rightarrow> s3_listing option) \<Rightarrow> string \<Rightarrow> string list option" where
  "go_listS3 s3 prefix =
     (case s3 prefix of
        None \<Rightarrow> None
      | Some result \<Rightarrow>
          Some (sort (filter (\<lambda>name. name \<noteq> [])
                        (map (\<lambda>p. TrimSuffix (TrimPrefix p prefix) ''/'') (CommonPrefixes result))
                      @ filter (\<lambda>name. name \<noteq> [])
                        (map (\<lambda>k. TrimPrefix k prefix) (Contents result)))))"

text \<open>
  \<^verbatim>\<open>
  checkpoints, err := listS3(ctx, client, BlocksPrefix+"/")
  if err != nil || len(checkpoints) == 0 { return nil, err }
  checkpoint := checkpoints[len(checkpoints)-1]
  dates, err := listS3(ctx, client, fmt.Sprintf("%s/%s/", BlocksPrefix, checkpoint))
  if err != nil { return nil, err }
  for _, date := range dates {
    files, err := listS3(ctx, client, fmt.Sprintf("%s/%s/%s/", BlocksPrefix, checkpoint, date))
    if err != nil { continue }
    for _, file := range files {
      key := fmt.Sprintf("%s/%s/%s/%s", BlocksPrefix, checkpoint, date, file)
      br := ParseBlockRange(key)
      if br != nil && br.StartBlock <= targetBlock && targetBlock <= br.EndBlock { return br, nil }
    }
  }
  return nil, nil
  \<close>
  \<open>Failed\<close> is the result \<^verbatim>\<open>nil, err\<close> with a non-nil error.
\<close>

datatype go_found = Found go_BlockRange | NotFound | Failed

fun go_scan_files :: "int \<Rightarrow> string \<Rightarrow> string \<Rightarrow> string list \<Rightarrow> go_BlockRange option" where
  "go_scan_files targetBlock ckpt d [] = None"
| "go_scan_files targetBlock ckpt d (file # files) =
     (case ParseBlockRange (file_key ckpt d file) of
        None \<Rightarrow> go_scan_files targetBlock ckpt d files
      | Some br \<Rightarrow>
          if StartBlock br \<le> targetBlock \<and> targetBlock \<le> EndBlock br then Some br
          else go_scan_files targetBlock ckpt d files)"

fun go_scan_dates :: "(string \<Rightarrow> s3_listing option) \<Rightarrow> int \<Rightarrow> string \<Rightarrow> string list \<Rightarrow> go_BlockRange option" where
  "go_scan_dates s3 targetBlock ckpt [] = None"
| "go_scan_dates s3 targetBlock ckpt (d # dates) =
     (case go_listS3 s3 (BLOCKS_PREFIX @ ''/'' @ ckpt @ ''/'' @ d @ ''/'') of
        None \<Rightarrow> go_scan_dates s3 targetBlock ckpt dates
      | Some files \<Rightarrow>
          (case go_scan_files targetBlock ckpt d files of
             Some br \<Rightarrow> Some br
           | None \<Rightarrow> go_scan_dates s3 targetBlock ckpt dates))"

definition go_findBlockFile :: "(string \<Rightarrow> s3_listing option) \<Rightarrow> int \<Rightarrow> go_found" where
  "go_findBlockFile s3 targetBlock =
     (case go_listS3 s3 (BLOCKS_PREFIX @ ''/'') of
        None \<Rightarrow> Failed
      | Some checkpoints \<Rightarrow>
          if length checkpoints = 0 then NotFound
          else (case go_listS3 s3 (BLOCKS_PREFIX @ ''/'' @ last checkpoints @ ''/'') of
                  None \<Rightarrow> Failed
                | Some dates \<Rightarrow>
                    (case go_scan_dates s3 targetBlock (last checkpoints) dates of
                       Some br \<Rightarrow> Found br
                     | None \<Rightarrow> NotFound)))"

section \<open>gRPC status codes and Go errors\<close>

datatype code =
    OK | CANCELLED | UNKNOWN | INVALID_ARGUMENT | DEADLINE_EXCEEDED | NOT_FOUND
  | ALREADY_EXISTS | PERMISSION_DENIED | RESOURCE_EXHAUSTED | FAILED_PRECONDITION
  | ABORTED | OUT_OF_RANGE | UNIMPLEMENTED | INTERNAL | UNAVAILABLE | DATA_LOSS
  | UNAUTHENTICATED

text \<open>A Go error is a gRPC status with its code and message, or any other error.\<close>

datatype go_error = StatusErr code string | PlainErr string

section \<open>Subscription requests (index.js, filter\_example.js, filter\_example.go)\<close>

text \<open>
  \<^verbatim>\<open>
  const subscribeRequest = { subscribe: { stream_type: streamType, start_block: 0 } };
  if (Object.keys(filters).length > 0) {
    subscribeRequest.subscribe.filters = {};
    for (const [field, values] of Object.entries(filters)) {
      subscribeRequest.subscribe.filters[field] = { values: Array.isArray(values) ? values : [values] };
    }
    console.log(`Filters applied: ${JSON.stringify(filters)}`);
  }
  call.write(subscribeRequest);
  \<close>
  The argument \<open>fs\<close> is the list of pairs that \<^verbatim>\<open>Object.entries(filters)\<close> yields, in the
  order in which it yields them.
\<close>

datatype filter_values = Many "string list" | One string

record subscribe =
  stream_type :: string
  start_block :: nat
  filters :: "(string \<times> string list) list option"
  filter_name :: "string option"

definition subscribeRequest :: "string \<Rightarrow> (string \<times> filter_values) list \<Rightarrow> subscribe" where
  "subscribeRequest streamType fs =
     \<lparr>stream_type = streamType, start_block = 0,
      filters = (if length fs > 0
                 then Some (map (\<lambda>(field, values). (field, case values of Many vs \<Rightarrow> vs | One v \<Rightarrow> [v])) fs)
                 else None),
      filter_name = None\<rparr>"

text \<open>The request of \<^verbatim>\<open>streamWithFilter\<close> (filter\_example.js, filter\_example.go) is a literal:
  \<^verbatim>\<open>
  subscribe: { stream_type: 'TRADES', start_block: 0,
               filters: { coin: { values: ['ETH', 'BTC'] } }, filter_name: 'eth-btc-trades' }
  \<close>
\<close>

definition filter_subscribe :: subscribe where
  "filter_subscribe =
     \<lparr>stream_type = ''TRADES'', start_block = 0,
      filters = Some [(''coin'', [''ETH'', ''BTC''])], filter_name = Some ''eth-btc-trades''\<rparr>"

text \<open>
  \<^verbatim>\<open>streamData\<close> (index.js) writes the request once and then only reacts to what the call
  emits: a response goes to the data handler, an error or the end of the stream is
  logged, and the 30 second timer writes a ping. \<open>Tick now\<close> is one firing of the timer.
  \<^verbatim>\<open>
  call.write(subscribeRequest);
  console.log(`Streaming ${streamType}...`);
  call.on('data', async (response) => { ... });
  call.on('error', (err) => console.error('Error:', err.message));
  call.on('end', () => console.log('Stream ended'));
  setInterval(() => { call.write({ ping: { timestamp: Date.now() } }); }, 30000);
  \<close>
\<close>

datatype sd_event = Response response | SdError string | SdEnd | Tick nat

datatype 'j sd_action =
    LogFilters
  | WriteSubscribe subscribe
  | LogStreaming string
  | LogStreamingFiltered
  | Printed "'j printed"
  | LogError string
  | LogEnded
  | WritePing nat

fun sd_react :: "(byte list \<Rightarrow> byte list option) \<Rightarrow> (byte list \<Rightarrow> string) \<Rightarrow> (string \<Rightarrow> 'j option) \<Rightarrow>
    sd_event \<Rightarrow> 'j sd_action list" where
  "sd_react zd utf8 parse (Response r) = map Printed (on_data zd utf8 parse r)"
| "sd_react zd utf8 parse (SdError m) = [LogError m]"
| "sd_react zd utf8 parse SdEnd = [LogEnded]"
| "sd_react zd utf8 parse (Tick now) = [WritePing now]"

definition streamData :: "(byte list \<Rightarrow> byte list option) \<Rightarrow> (byte list \<Rightarrow> string) \<Rightarrow> (string \<Rightarrow> 'j option) \<Rightarrow>
    string \<Rightarrow> (string \<times> filter_values) list \<Rightarrow> sd_event list \<Rightarrow> 'j sd_action list" where
  "streamData zd utf8 parse streamType fs events =
     (if length fs > 0 then [LogFilters] else [])
     @ [WriteSubscribe (subscribeRequest streamType fs), LogStreaming streamType]
     @ concat (map (sd_react zd utf8 parse) events)"

text \<open>
  \<^verbatim>\<open>streamWithFilter\<close> (filter\_example.js) has the same shape, with the literal request
  and no handler for the end of the stream:
  \<^verbatim>\<open>
  call.write({ subscribe: { stream_type: 'TRADES', start_block: 0, ... } });
  console.log('Streaming TRADES filtered by coin: ETH, BTC\n');
  call.on('data', async (response) => { ... });
  call.on('error', (err) => console.error('Error:', err.message));
  setInterval(() => call.write({ ping: { timestamp: Date.now() } }), 30000);
  \<close>
\<close>

fun filter_react :: "(byte list \<Rightarrow> byte list option) \<Rightarrow> (byte list \<Rightarrow> string) \<Rightarrow> (string \<Rightarrow> 'j option) \<Rightarrow>
    sd_event \<Rightarrow> 'j sd_action list" where
  "filter_react zd utf8 parse (Response r) = map Printed (filter_on_data zd utf8 parse r)"
| "filter_react zd utf8 parse (SdError m) = [LogError m]"
| "filter_react zd utf8 parse SdEnd = []"
| "filter_react zd utf8 parse (Tick now) = [WritePing now]"

definition streamWithFilter :: "(byte list \<Rightarrow> byte list option) \<Rightarrow> (byte list \<Rightarrow> string) \<Rightarrow> (string \<Rightarrow> 'j option) \<Rightarrow>
    sd_event list \<Rightarrow> 'j sd_action list" where
  "streamWithFilter zd utf8 parse events =
     [WriteSubscribe filter_subscribe, LogStreamingFiltered]
     @ concat (map (filter_react zd utf8 parse) events)"

fun subscribes :: "'j sd_action list \<Rightarrow> subscribe list" where
  "subscribes [] = []"
| "subscribes (WriteSubscribe s # as) = s # subscribes as"
| "subscribes (_ # as) = subscribes as"

subsection \<open>The Go version of the filter example\<close>

text \<open>
  \<^verbatim>\<open>
  func streamWithFilter() error {
    conn, err := grpc.Dial(...)
    if err != nil { return err }
    defer conn.Close()
    stream, err := client.StreamData(ctx)
    if err != nil { return err }
    subscribe := &pb.StreamSubscribe{StreamType: pb.StreamType_TRADES, StartBlock: 0,
      FilterName: "eth-btc-trades", Filters: map[string]*pb.FilterValues{"coin": {Values: []string{"ETH", "BTC"}}}}
    if err := stream.Send(&pb.SubscribeRequest{...subscribe...}); err != nil { return err }
    log.Println("Streaming TRADES filtered by coin: ETH, BTC")
    go func() { ... ping every 30 seconds ... }()
    for {
      resp, err := stream.Recv()
      if err == io.EOF { return nil }
      if err != nil { return err }
      if data := resp.GetData(); data != nil { ... decompress, unmarshal, print ... }
    }
  }
  \<close>
  The environment gives the results of \<^verbatim>\<open>grpc.Dial\<close>, \<^verbatim>\<open>client.StreamData\<close>, the
  \<^verbatim>\<open>stream.Send\<close> of the request and the successive \<^verbatim>\<open>stream.Recv()\<close> calls. The
  keep-alive goroutine, which sends pings and nothing else, is left out. \<open>GoBlocked\<close>
  is a \<^verbatim>\<open>Recv\<close> that never returns.
\<close>

record go_data =
  BlockNumber :: nat
  DataBytes :: "byte list"

datatype go_response = GoResponse "go_data option" | GoEOF | GoRecvErr go_error

record filter_env =
  f_dial_err :: "go_error option"
  f_open_err :: "go_error option"
  f_send_err :: "go_error option"
  f_recvs :: "go_response list"

datatype 'j go_action =
    GoDial
  | GoOpenStream
  | GoSend subscribe
  | GoSendFailed
  | GoLogStreaming
  | GoPrinted "'j printed"
  | GoClose

datatype go_return = GoReturn "go_error option" | GoBlocked

fun go_filter_loop :: "(byte list \<Rightarrow> byte list option) \<Rightarrow> (byte list \<Rightarrow> 'j option) \<Rightarrow> go_response list \<Rightarrow>
    'j go_action list \<times> go_return" where
  "go_filter_loop zd parse [] = ([], GoBlocked)"
| "go_filter_loop zd parse (GoEOF # rest) = ([], GoReturn None)"
| "go_filter_loop zd parse (GoRecvErr e # rest) = ([], GoReturn (Some e))"
| "go_filter_loop zd parse (GoResponse None # rest) = go_filter_loop zd parse rest"
| "go_filter_loop zd parse (GoResponse (Some d) # rest) =
     (let (acts, r) = go_filter_loop zd parse rest
      in (map GoPrinted (go_on_data zd parse (BlockNumber d) (DataBytes d)) @ acts, r))"

definition go_streamWithFilter :: "(byte list \<Rightarrow> byte list option) \<Rightarrow> (byte list \<Rightarrow> 'j option) \<Rightarrow> filter_env \<Rightarrow>
    'j go_action list \<times> go_return" where
  "go_streamWithFilter zd parse env =
     (case f_dial_err env of
        Some e \<Rightarrow> ([GoDial], GoReturn (Some e))
      | None \<Rightarrow>
          (case f_open_err env of
             Some e \<Rightarrow> ([GoDial, GoOpenStream, GoClose], GoReturn (Some e))
           | None \<Rightarrow>
               (case f_send_err env of
                  Some e \<Rightarrow> ([GoDial, GoOpenStream, GoSendFailed, GoClose], GoReturn (Some e))
                | None \<Rightarrow>
                    (let (acts, r) = go_filter_loop zd parse (f_recvs env)
                     in ([GoDial, GoOpenStream, GoSend filter_subscribe, GoLogStreaming] @ acts
                         @ (case r of GoBlocked \<Rightarrow> [] | GoReturn x \<Rightarrow> [GoClose]), r)))))"

fun go_sends :: "'j go_action list \<Rightarrow> subscribe list" where
  "go_sends [] = []"
| "go_sends (GoSend s # as) = s # go_sends as"
| "go_sends (_ # as) = go_sends as"

text \<open>The resume rule of the design text, step 2 of the connect loop: the start position
  of a subscribe intent is \<open>max(config.startCursor, lastConfirmedCursor + 1)\<close>.\<close>

definition spec_start_position :: "nat \<Rightarrow> nat \<Rightarrow> nat" where
  "spec_start_position startCursor lastConfirmedCursor = max startCursor (lastConfirmedCursor + 1)"

text \<open>Environments for concrete evaluation.\<close>

definition filter_env_reset :: filter_env where
  "filter_env_reset =
     \<lparr>f_dial_err = None, f_open_err = None, f_send_err = None,
      f_recvs = [GoResponse (Some \<lparr>BlockNumber = 100, DataBytes = [0x7B, 0x7D]\<rparr>),
                 GoRecvErr (StatusErr DATA_LOSS ''reinitialized'')]\<rparr>"

section \<open>Order book streams with reconnection (orderbook\_stream\_example.js, orderbook\_stream\_example.go)\<close>

text \<open>\<^verbatim>\<open>const maxRetries = 10; const baseDelay = 2000;\<close> (milliseconds) in JavaScript,
  \<^verbatim>\<open>maxRetries = 10; baseDelay = 2 * time.Second\<close> (nanoseconds) in Go.\<close>

definition maxRetries :: nat where
  "maxRetries = 10"

definition baseDelay :: int where
  "baseDelay = 2000"

definition go_baseDelay :: int where
  "go_baseDelay = 2 * 1000000000"

text \<open>\<^verbatim>\<open>baseDelay * Math.pow(2, retryCount - 1)\<close>, evaluated after the increment, so
  \<open>retryCount \<ge> 1\<close>; the powers of two involved are exact in floating point.\<close>

definition backoff :: "int \<Rightarrow> nat \<Rightarrow> int" where
  "backoff base retryCount = base * 2 ^ (retryCount - 1)"

record l2_update =
  l2_block :: nat
  l2_time :: nat
  l2_coin :: string

text \<open>What the code does towards the outside, in order: log lines, calls of the gRPC
  client, waits and timers. The printing of one order book update is one action.\<close>

datatype action =
    Dial
  | LogConnecting
  | LogReconnecting nat nat
  | OpenStream string nat
  | LogFirstUpdate
  | Display l2_update nat
  | LogReinitialized string
  | LogWaiting int
  | Sleep int
  | SetTimeout int string nat bool
  | LogMaxRetries nat
  | LogGrpcError code string
  | LogStreamEnded
  | LogCaught string
  | CloseConn

subsection \<open>JavaScript\<close>

record retry_state =
  retryCount :: nat
  msgCount :: nat

text \<open>
  \<^verbatim>\<open>
  call.on('data', (update) => {
    msgCount++;
    if (msgCount === 1) {
      console.log('First L2 update received!');
      retryCount = 0; // Reset on success
    }
    ... print the update ...
  });
  \<close>
\<close>

definition on_update :: "retry_state \<Rightarrow> l2_update \<Rightarrow> retry_state \<times> action list" where
  "on_update st update =
     (let mc = msgCount st + 1
      in if mc = 1 then (st\<lparr>retryCount := 0, msgCount := mc\<rparr>, [LogFirstUpdate, Display update mc])
         else (st\<lparr>msgCount := mc\<rparr>, [Display update mc]))"

text \<open>
  \<^verbatim>\<open>
  call.on('error', (err) => {
    if (err.code === grpc.status.DATA_LOSS && autoReconnect) {
      console.log(`Server reinitialized: ${err.message}`);
      retryCount++;
      if (retryCount < maxRetries) {
        const delay = baseDelay * Math.pow(2, retryCount - 1);
        console.log(`Waiting ${delay / 1000}s before reconnecting...`);
        setTimeout(() => streamL2Orderbook(coin, nLevels, autoReconnect), delay);
      } else {
        console.log(`Max retries (${maxRetries}) reached. Giving up.`);
      }
    } else {
      console.error('gRPC error:', err.code, '-', err.message);
    }
  });
  \<close>
\<close>

definition on_error :: "string \<Rightarrow> nat \<Rightarrow> bool \<Rightarrow> retry_state \<Rightarrow> code \<Rightarrow> string \<Rightarrow> retry_state \<times> action list" where
  "on_error coin nLevels autoReconnect st c message =
     (if c = DATA_LOSS \<and> autoReconnect then
        (let rc = retryCount st + 1
         in if rc < maxRetries then
              (st\<lparr>retryCount := rc\<rparr>,
               [LogReinitialized message, LogWaiting (backoff baseDelay rc div 1000),
                SetTimeout (backoff baseDelay rc) coin nLevels autoReconnect])
            else (st\<lparr>retryCount := rc\<rparr>, [LogReinitialized message, LogMaxRetries maxRetries]))
      else (st, [LogGrpcError c message]))"

datatype js_event = UpdateEv l2_update | ErrorEv code string | EndEv

fun js_react :: "string \<Rightarrow> nat \<Rightarrow> bool \<Rightarrow> retry_state \<Rightarrow> js_event \<Rightarrow> retry_state \<times> action list" where
  "js_react coin nLevels autoReconnect st (UpdateEv u) = on_update st u"
| "js_react coin nLevels autoReconnect st (ErrorEv c m) = on_error coin nLevels autoReconnect st c m"
| "js_react coin nLevels autoReconnect st EndEv = (st, [LogStreamEnded])"

fun js_events :: "string \<Rightarrow> nat \<Rightarrow> bool \<Rightarrow> retry_state \<Rightarrow> js_event list \<Rightarrow> retry_state \<times> action list" where
  "js_events coin nLevels autoReconnect st [] = (st, [])"
| "js_events coin nLevels autoReconnect st (e # es) =
     (let (st1, acts1) = js_react coin nLevels autoReconnect st e;
          (st2, acts2) = js_events coin nLevels autoReconnect st1 es
      in (st2, acts1 @ acts2))"

text \<open>
  One call of \<^verbatim>\<open>streamL2Orderbook(coin, nLevels, autoReconnect)\<close>. The function
  starts with \<^verbatim>\<open>let retryCount = 0\<close>; the body of its \<^verbatim>\<open>while (retryCount < maxRetries)\<close>
  loop opens the stream, registers the handlers, waits for the first
  \<^verbatim>\<open>end\<close> or \<^verbatim>\<open>error\<close> and then leaves the loop with \<^verbatim>\<open>break\<close> (as does the
  \<^verbatim>\<open>catch\<close> branch), so the body runs once. The environment of the call is either an
  exception thrown while the stream is opened, or the events the stream emits.
\<close>

datatype js_call = Throws string | Emits "js_event list"

definition streamL2Orderbook :: "string \<Rightarrow> nat \<Rightarrow> bool \<Rightarrow> js_call \<Rightarrow> retry_state \<times> action list" where
  "streamL2Orderbook coin nLevels autoReconnect env =
     (let st0 = \<lparr>retryCount = 0, msgCount = 0\<rparr>
      in if retryCount st0 < maxRetries then
           (let hello = (if retryCount st0 > 0
                         then LogReconnecting (retryCount st0 + 1) maxRetries else LogConnecting)
            in case env of
                 Throws m \<Rightarrow> (st0, [hello, LogCaught m])
               | Emits es \<Rightarrow>
                   (let (st, acts) = js_events coin nLevels autoReconnect st0 es
                    in (st, hello # OpenStream coin nLevels # acts)))
         else (st0, []))"

text \<open>A timer set by the error handler calls \<^verbatim>\<open>streamL2Orderbook\<close> again, with the same
  arguments. A session is the first call and the calls made by the timers, in the order
  the timers were set; \<open>pending\<close> counts the calls still to be made, and each call takes
  the next environment of the list.\<close>

fun timers :: "action list \<Rightarrow> int list" where
  "timers [] = []"
| "timers (SetTimeout d c n r # as) = d # timers as"
| "timers (_ # as) = timers as"

fun js_session :: "string \<Rightarrow> nat \<Rightarrow> bool \<Rightarrow> nat \<Rightarrow> js_call list \<Rightarrow> (retry_state \<times> action list) list" where
  "js_session coin nLevels autoReconnect pending [] = []"
| "js_session coin nLevels autoReconnect 0 (env # envs) = []"
| "js_session coin nLevels autoReconnect (Suc pending) (env # envs) =
     (let r = streamL2Orderbook coin nLevels autoReconnect env
      in r # js_session coin nLevels autoReconnect (pending + length (timers (snd r))) envs)"

subsection \<open>Go\<close>

text \<open>\<^verbatim>\<open>st, ok := status.FromError(err); ok && st.Code() == codes.DataLoss\<close>\<close>

fun is_data_loss :: "go_error \<Rightarrow> bool" where
  "is_data_loss (StatusErr c m) = (c = DATA_LOSS)"
| "is_data_loss (PlainErr m) = False"

fun err_message :: "go_error \<Rightarrow> string" where
  "err_message (StatusErr c m) = m"
| "err_message (PlainErr m) = m"

datatype recv = Recv l2_update | RecvEOF | RecvErr go_error

text \<open>The environment of one pass through the outer loop: the result of
  \<^verbatim>\<open>grpc.Dial\<close>, of \<^verbatim>\<open>client.StreamL2Book\<close>, and of the successive \<^verbatim>\<open>stream.Recv()\<close>
  calls.\<close>

record attempt =
  dial_err :: "go_error option"
  open_err :: "go_error option"
  recvs :: "recv list"

datatype go_result = ReturnNil | ReturnErr string go_error | RecvBlocked | NoMoreAttempts

datatype inner = Broke bool | Returned go_result | Blocked

text \<open>
  The inner \<^verbatim>\<open>for\<close> loop:
  \<^verbatim>\<open>
  update, err := stream.Recv()
  if err == io.EOF { break }
  if err != nil {
    st, ok := status.FromError(err)
    if ok && st.Code() == codes.DataLoss {
      retryCount++
      if retryCount < maxRetries {
        delay := baseDelay * time.Duration(math.Pow(2, float64(retryCount-1)))
        time.Sleep(delay); shouldRetry = true; break
      } else { conn.Close(); return nil }
    }
    conn.Close()
    return fmt.Errorf("stream error: %w", err)
  }
  msgCount++
  if msgCount == 1 { retryCount = 0 }
  \<close>
  \<open>Broke shouldRetry\<close> is a \<^verbatim>\<open>break\<close>, \<open>Returned r\<close> a \<^verbatim>\<open>return\<close>, and \<open>Blocked\<close> a
  \<^verbatim>\<open>Recv\<close> that never returns (the list of results is used up).
\<close>

fun go_recv_loop :: "nat \<Rightarrow> nat \<Rightarrow> recv list \<Rightarrow> action list \<times> nat \<times> inner" where
  "go_recv_loop rc mc [] = ([], rc, Blocked)"
| "go_recv_loop rc mc (RecvEOF # rest) = ([], rc, Broke False)"
| "go_recv_loop rc mc (RecvErr err # rest) =
     (if is_data_loss err then
        (if rc + 1 < maxRetries then
           ([LogReinitialized (err_message err), LogWaiting (backoff go_baseDelay (rc + 1)),
             Sleep (backoff go_baseDelay (rc + 1))], rc + 1, Broke True)
         else ([LogReinitialized (err_message err), LogMaxRetries maxRetries, CloseConn],
               rc + 1, Returned ReturnNil))
      else ([CloseConn], rc, Returned (ReturnErr ''stream error'' err)))"
| "go_recv_loop rc mc (Recv update # rest) =
     (let (acts, rc', out) = go_recv_loop (if mc + 1 = 1 then 0 else rc) (mc + 1) rest
      in ((if mc + 1 = 1 then [LogFirstUpdate] else []) @ Display update (mc + 1) # acts, rc', out))"

text \<open>The outer loop \<^verbatim>\<open>for retryCount < maxRetries { ... }\<close> of \<^verbatim>\<open>streamL2Orderbook\<close>;
  \<open>NoMoreAttempts\<close> marks a run that would connect again when the list of environments
  is used up.\<close>

definition hello :: "nat \<Rightarrow> action" where
  "hello rc = (if rc > 0 then LogReconnecting (rc + 1) maxRetries else LogConnecting)"

fun go_retry_loop :: "string \<Rightarrow> nat \<Rightarrow> nat \<Rightarrow> attempt list \<Rightarrow> action list \<times> go_result" where
  "go_retry_loop coin nLevels rc [] = (if rc < maxRetries then ([], NoMoreAttempts) else ([], ReturnNil))"
| "go_retry_loop coin nLevels rc (a # rest) =
     (if rc < maxRetries then
        (case dial_err a of
           Some e \<Rightarrow> ([Dial], ReturnErr ''failed to connect'' e)
         | None \<Rightarrow>
             (case open_err a of
                Some e \<Rightarrow> ([Dial, hello rc, OpenStream coin nLevels, CloseConn],
                            ReturnErr ''failed to start stream'' e)
              | None \<Rightarrow>
                  (case go_recv_loop rc 0 (recvs a) of
                     (acts, rc', Blocked) \<Rightarrow> ([Dial, hello rc, OpenStream coin nLevels] @ acts, RecvBlocked)
                   | (acts, rc', Returned r) \<Rightarrow> ([Dial, hello rc, OpenStream coin nLevels] @ acts, r)
                   | (acts, rc', Broke shouldRetry) \<Rightarrow>
                       (if shouldRetry then
                          (let (more, r) = go_retry_loop coin nLevels rc' rest
                           in ([Dial, hello rc, OpenStream coin nLevels] @ acts @ [CloseConn] @ more, r))
                        else ([Dial, hello rc, OpenStream coin nLevels] @ acts @ [CloseConn], ReturnNil)))))
      else ([], ReturnNil))"

definition go_streamL2Orderbook :: "string \<Rightarrow> nat \<Rightarrow> attempt list \<Rightarrow> action list \<times> go_result" where
  "go_streamL2Orderbook coin nLevels attempts = go_retry_loop coin nLevels 0 attempts"

fun sleeps :: "action list \<Rightarrow> int list" where
  "sleeps [] = []"
| "sleeps (Sleep d # as) = d # sleeps as"
| "sleeps (_ # as) = sleeps as"

fun opens :: "action list \<Rightarrow> (string \<times> nat) list" where
  "opens [] = []"
| "opens (OpenStream c n # as) = (c, n) # opens as"
| "opens (_ # as) = opens as"

text \<open>Environments for concrete evaluation: a stream that fails with \<^verbatim>\<open>DATA_LOSS\<close>
  before any update, and one that delivers the update of block 100 first.\<close>

definition lost :: js_call where
  "lost = Emits [ErrorEv DATA_LOSS ''reinitialized'']"

definition lost_after_100 :: js_call where
  "lost_after_100 = Emits [UpdateEv \<lparr>l2_block = 100, l2_time = 0, l2_coin = ''BTC''\<rparr>, ErrorEv DATA_LOSS ''reinitialized'']"

definition go_lost :: attempt where
  "go_lost = \<lparr>dial_err = None, open_err = None, recvs = [RecvErr (StatusErr DATA_LOSS ''reinitialized'')]\<rparr>"

definition go_lost_after_100 :: attempt where
  "go_lost_after_100 = \<lparr>dial_err = None, open_err = None,
     recvs = [Recv \<lparr>l2_block = 100, l2_time = 0, l2_coin = ''BTC''\<rparr>, RecvErr (StatusErr DATA_LOSS ''reinitialized'')]\<rparr>"

definition go_unreachable :: attempt where
  "go_unreachable = \<lparr>dial_err = Some (StatusErr UNAVAILABLE ''connection refused''), open_err = None, recvs = []\<rparr>"

definition go_refused :: attempt where
  "go_refused = \<lparr>dial_err = None, open_err = None,
     recvs = [RecvErr (StatusErr UNAVAILABLE ''connection refused'')]\<rparr>"

definition go_open_refused :: attempt where
  "go_open_refused = \<lparr>dial_err = None, open_err = Some (StatusErr UNAVAILABLE ''connection refused''), recvs = []\<rparr>"

definition go_streaming_150 :: attempt where
  "go_streaming_150 = \<lparr>dial_err = None, open_err = None,
     recvs = [Recv \<lparr>l2_block = 150, l2_time = 0, l2_coin = ''BTC''\<rparr>]\<rparr>"

definition streaming_150 :: js_call where
  "streaming_150 = Emits [UpdateEv \<lparr>l2_block = 150, l2_time = 0, l2_coin = ''BTC''\<rparr>]"



text \<open>The events of the design text that a run shows to its caller: a subscribe intent
  with its start position, and a gap notification. A stream opened by the code is a
  subscribe intent; its request has the coin and the number of levels and no start
  position. No action of the code is a gap notification.\<close>

datatype spec_event = SubscribeIntent "nat option" | GapDetected nat nat

fun observe :: "action list \<Rightarrow> spec_event list" where
  "observe [] = []"
| "observe (OpenStream c n # as) = SubscribeIntent None # observe as"
| "observe (_ # as) = observe as"

text \<open>What the design text asks for when an upstream reset arrives whose minimum
  available position lies beyond the next expected one: the notification, then a resume
  at the minimum available position.\<close>

definition spec_resume_after_reset :: "nat \<Rightarrow> nat \<Rightarrow> spec_event list" where
  "spec_resume_after_reset lastConfirmedCursor minimumAvailable =
     (if minimumAvailable > lastConfirmedCursor + 1
      then [GapDetected (lastConfirmedCursor + 1) minimumAvailable, SubscribeIntent (Some minimumAvailable)]
      else [SubscribeIntent (Some (lastConfirmedCursor + 1))])"

section \<open>Decompression: theorems\<close>

lemma magic_length: "magic bs \<Longrightarrow> 4 \<le> length bs"
  by (induction bs rule: magic.induct) simp_all

lemma decompress_short: "length bs < 4 \<Longrightarrow> decompress zd utf8 (Buffer bs) = Inr (Buffer bs)"
  by simp

lemma decompress_plain:
  "4 \<le> length bs \<Longrightarrow> \<not> magic bs \<Longrightarrow> decompress zd utf8 (Buffer bs) = Inr (Str (utf8 bs))"
  by simp

lemma decompress_magic:
  "magic bs \<Longrightarrow> decompress zd utf8 (Buffer bs) =
     (case zd bs of None \<Rightarrow> Inl ZstdError | Some out \<Rightarrow> Inr (Str (utf8 out)))"
  using magic_length [of bs] by simp

lemma decompress_fails_only_on_magic:
  "decompress zd utf8 v = Inl e \<Longrightarrow> \<exists>bs. v = Buffer bs \<and> magic bs \<and> zd bs = None"
  by (cases v) (auto split: if_splits option.splits)

lemma go_decompress_plain: "\<not> magic data \<Longrightarrow> go_decompress zd data = Inr data"
  by (simp add: go_decompress_def)

lemma go_decompress_magic:
  "magic data \<Longrightarrow> go_decompress zd data = (case zd data of None \<Rightarrow> Inl ZstdError | Some out \<Rightarrow> Inr out)"
  using magic_length [of data] by (simp add: go_decompress_def)


lemma go_decompress_fails_only_on_magic:
  "go_decompress zd data = Inl e \<Longrightarrow> magic data \<and> zd data = None"
  by (auto simp: go_decompress_def split: if_splits option.splits)

text \<open>
  C10. \<open>decompress\<close> never fails on an input without the zstd magic prefix. An input that
  is not a buffer, or a buffer shorter than four bytes, is returned as it is, without
  conversion to text; a buffer of four bytes or more whose first four bytes are not the
  magic number is returned as its UTF-8 text. A failure happens only for a buffer that
  starts with the magic number and that the zstd library rejects. The Go version returns
  the bytes of every input without the prefix, and fails only under the same condition.
\<close>

theorem decompress_total_without_magic:
  "((\<forall>bs. v \<noteq> Buffer bs) \<or> (\<exists>bs. v = Buffer bs \<and> length bs < 4) \<longrightarrow> decompress zd utf8 v = Inr v)
   \<and> (4 \<le> length bs \<and> \<not> magic bs \<longrightarrow> decompress zd utf8 (Buffer bs) = Inr (Str (utf8 bs)))
   \<and> (decompress zd utf8 w = Inl e \<longrightarrow> (\<exists>cs. w = Buffer cs \<and> magic cs \<and> zd cs = None))
   \<and> (\<not> magic data \<longrightarrow> go_decompress zd data = Inr data)
   \<and> (go_decompress zd data' = Inl e' \<longrightarrow> magic data' \<and> zd data' = None)"
proof (intro conjI impI)
  assume "(\<forall>bs. v \<noteq> Buffer bs) \<or> (\<exists>bs. v = Buffer bs \<and> length bs < 4)"
  then show "decompress zd utf8 v = Inr v"
    by (cases v) auto
next
  assume "4 \<le> length bs \<and> \<not> magic bs"
  then show "decompress zd utf8 (Buffer bs) = Inr (Str (utf8 bs))"
    by (simp add: decompress_plain)
next
  assume "decompress zd utf8 w = Inl e"
  then show "\<exists>cs. w = Buffer cs \<and> magic cs \<and> zd cs = None"
    by (rule decompress_fails_only_on_magic)
next
  assume "\<not> magic data"
  then show "go_decompress zd data = Inr data"
    by (rule go_decompress_plain)
next
  assume "go_decompress zd data' = Inl e'"
  then show "magic data'" and "zd data' = None"
    by (auto dest: go_decompress_fails_only_on_magic)
qed

theorem decompress_total_without_magic_witness:
  "decompress sample_zd ascii (Buffer [0x7B, 0x7D]) = Inr (Buffer [0x7B, 0x7D])
   \<and> decompress sample_zd ascii (Str ''{}'') = Inr (Str ''{}'')
   \<and> decompress sample_zd ascii (Buffer [0x7B, 0x22, 0x61, 0x22, 0x7D]) = Inr (Str (ascii [0x7B, 0x22, 0x61, 0x22, 0x7D]))
   \<and> decompress sample_zd ascii (Buffer [0x28, 0xB5, 0x2F, 0xFD]) = Inl ZstdError
   \<and> magic [0x28, 0xB5, 0x2F, 0xFD] \<and> sample_zd [0x28, 0xB5, 0x2F, 0xFD] = None
   \<and> go_decompress sample_zd [0x7B, 0x7D] = Inr [0x7B, 0x7D]
   \<and> go_decompress sample_zd [0x28, 0xB5, 0x2F, 0xFD] = Inl ZstdError"
proof -
  have short: "(\<forall>bs. Buffer [0x7B, 0x7D] \<noteq> Buffer bs) \<or> (\<exists>bs. Buffer [0x7B, 0x7D] = Buffer bs \<and> length bs < 4)"
    by simp
  have nobuf: "(\<forall>bs. Str ''{}'' \<noteq> Buffer bs) \<or> (\<exists>bs. Str ''{}'' = Buffer bs \<and> length bs < 4)"
    by simp
  have plain: "4 \<le> length [0x7B, 0x22, 0x61, 0x22, 0x7D :: byte] \<and> \<not> magic [0x7B, 0x22, 0x61, 0x22, 0x7D]"
    by simp
  have fails: "decompress sample_zd ascii (Buffer [0x28, 0xB5, 0x2F, 0xFD]) = Inl ZstdError"
    by (simp add: sample_zd_def sample_frame_def)
  have gplain: "\<not> magic [0x7B, 0x7D]" by simp
  have gfails: "go_decompress sample_zd [0x28, 0xB5, 0x2F, 0xFD] = Inl ZstdError"
    by (simp add: go_decompress_def sample_zd_def sample_frame_def)
  note T1 = decompress_total_without_magic
    [of "Buffer [0x7B, 0x7D]" sample_zd ascii "[0x7B, 0x22, 0x61, 0x22, 0x7D]"
        "Buffer [0x28, 0xB5, 0x2F, 0xFD]" ZstdError "[0x7B, 0x7D]" "[0x28, 0xB5, 0x2F, 0xFD]" ZstdError]
  note T2 = decompress_total_without_magic
    [of "Str ''{}''" sample_zd ascii "[0x7B, 0x22, 0x61, 0x22, 0x7D]"
        "Buffer [0x28, 0xB5, 0x2F, 0xFD]" ZstdError "[0x7B, 0x7D]" "[0x28, 0xB5, 0x2F, 0xFD]" ZstdError]
  from T1 short have a: "decompress sample_zd ascii (Buffer [0x7B, 0x7D]) = Inr (Buffer [0x7B, 0x7D])"
    by blast
  from T2 nobuf have b: "decompress sample_zd ascii (Str ''{}'') = Inr (Str ''{}'')"
    by blast
  from T1 plain have c:
    "decompress sample_zd ascii (Buffer [0x7B, 0x22, 0x61, 0x22, 0x7D]) = Inr (Str (ascii [0x7B, 0x22, 0x61, 0x22, 0x7D]))"
    by blast
  from T1 fails have d: "magic [0x28, 0xB5, 0x2F, 0xFD] \<and> sample_zd [0x28, 0xB5, 0x2F, 0xFD] = None"
    by blast
  from T1 gplain have e: "go_decompress sample_zd [0x7B, 0x7D] = Inr [0x7B, 0x7D]"
    by blast
  from a b c d e fails gfails show ?thesis by blast
qed

lemma decompress_by_prefix:
  "(magic bs \<and> zd bs = Some t \<longrightarrow>
      decompress zd utf8 (Buffer bs) = Inr (Str (utf8 t)) \<and> go_decompress zd bs = Inr t)
   \<and> (4 \<le> length cs \<and> \<not> magic cs \<longrightarrow> decompress zd utf8 (Buffer cs) = Inr (Str (utf8 cs)))"
proof (intro conjI impI)
  assume h: "magic bs \<and> zd bs = Some t"
  then have m: "magic bs" and z: "zd bs = Some t" by simp_all
  from decompress_magic [OF m, of zd utf8] z
  show "decompress zd utf8 (Buffer bs) = Inr (Str (utf8 t))" by simp
  from go_decompress_magic [OF m, of zd] z
  show "go_decompress zd bs = Inr t" by simp
next
  assume "4 \<le> length cs \<and> \<not> magic cs"
  then show "decompress zd utf8 (Buffer cs) = Inr (Str (utf8 cs))"
    by (simp add: decompress_plain)
qed

text \<open>With the prefix and a frame the library decodes, every handler prints the decoded
  text as JSON; without the prefix and with four bytes or more, the handlers read the
  bytes as text.\<close>

lemma handlers_on_sample_frame:
  "filter_on_data sample_zd ascii sample_json
      (Data \<lparr>block_number = 7, timestamp = 0, payload = Buffer sample_frame\<rparr>)
     = [PrintBlock 7, PrintJson ''{}'']
   \<and> on_data sample_zd ascii sample_json
      (Data \<lparr>block_number = 7, timestamp = 0, payload = Buffer sample_frame\<rparr>)
     = [PrintBlockTimestamp 7 0, PrintJson ''{}'']
   \<and> go_on_data sample_zd (\<lambda>bs. sample_json (ascii bs)) 7 sample_frame = [PrintBlock 7, PrintJson ''{}'']"
  by code_simp

text \<open>
  C1, at the failing input: the data handler of filter\_example.js receives a payload of
  fewer than four bytes that is not JSON, here the two bytes of \<open>hi\<close>, and here the
  empty payload. \<open>decompress\<close> returns the Buffer itself, \<^verbatim>\<open>JSON.parse\<close> fails, and
  the handler prints the Buffer object (\<^verbatim>\<open><Buffer 68 69>\<close>), not the text \<open>hi\<close>. The
  same handler prints the five bytes of \<open>hello\<close> as the text \<open>hello\<close>; the handler of
  index.js prints \<open>hi\<close> as text; the Go \<open>decompress\<close> returns the bytes of \<open>hi\<close> as
  a string.
\<close>

theorem short_payload_printed_as_buffer:
  "\<not> magic [0x68, 0x69]
   \<and> ascii [0x68, 0x69] = ''hi''
   \<and> filter_on_data sample_zd ascii sample_json (Data plain_hi) = [PrintInspected (Buffer [0x68, 0x69])]
   \<and> filter_on_data sample_zd ascii sample_json (Data plain_empty) = [PrintInspected (Buffer [])]
   \<and> filter_on_data sample_zd ascii sample_json (Data plain_hello) = [PrintText ''hello'']
   \<and> on_data sample_zd ascii sample_json (Data plain_hi) = [PrintBlockText 7 ''hi'']
   \<and> go_decompress sample_zd [0x68, 0x69] = Inr [0x68, 0x69]"
  by code_simp

section \<open>Backfill: theorems\<close>

lemma split_on_nonempty: "split_on c s \<noteq> []"
  by (induction s) (auto split: list.splits)

lemma split_on_append: "split_on c (a @ c # b) = split_on c a @ split_on c b"
  by (induction a) (auto split: list.splits simp: split_on_nonempty)

lemma split_on_single: "split_on c s = [x] \<Longrightarrow> x = s"
  by (induction s arbitrary: x) (auto split: list.splits if_splits simp: split_on_nonempty)

lemma split_on_four:
  assumes h: "split_on c a @ split_on c b @ split_on c d @ split_on c e = [p0, p1, p2, p3]"
  shows "p0 = a \<and> p1 = b \<and> p2 = d \<and> p3 = e"
proof -
  obtain a1 as where a: "split_on c a = a1 # as" using split_on_nonempty [of c a] by (cases "split_on c a") auto
  obtain b1 bs where b: "split_on c b = b1 # bs" using split_on_nonempty [of c b] by (cases "split_on c b") auto
  obtain d1 ds where d: "split_on c d = d1 # ds" using split_on_nonempty [of c d] by (cases "split_on c d") auto
  obtain e1 es where e: "split_on c e = e1 # es" using split_on_nonempty [of c e] by (cases "split_on c e") auto
  from arg_cong [OF h, of length] a b d e
  have nil: "as = [] \<and> bs = [] \<and> ds = [] \<and> es = []" by simp
  with h a b d e have "a1 = p0 \<and> b1 = p1 \<and> d1 = p2 \<and> e1 = p3" by simp
  with nil a b d e show ?thesis by (auto dest: split_on_single)
qed

lemma streamBlocks_from_eq:
  "streamBlocks_from blank parse add start n lines =
     List.map_filter (\<lambda>(k, line). map_option (Pair (add start k)) (parse line))
       (enumerate n (filter (\<lambda>line. \<not> blank line) lines))"
  by (induction lines arbitrary: n) (auto simp: List.map_filter_simps split: option.splits)

lemma numbered_from_eq:
  "\<forall>l\<in>set lines. \<not> blank l \<Longrightarrow>
   List.map_filter (\<lambda>(k, line). if \<not> blank line then map_option (Pair (add start k)) (parse line) else None)
       (enumerate n lines) =
   List.map_filter (\<lambda>(k, line). map_option (Pair (add start k)) (parse line))
       (enumerate n (filter (\<lambda>line. \<not> blank line) lines))"
  by (induction lines arbitrary: n) (auto simp: List.map_filter_simps split: option.splits)

lemma sorted_le_last: "sorted xs \<Longrightarrow> x \<in> set xs \<Longrightarrow> x \<le> last xs"
  by (induction xs) auto

lemma scan_files_Some:
  "scan_files pint t ckpt d files = Some br \<Longrightarrow>
     \<exists>file \<in> set files. parseBlockRange pint (file_key ckpt d file) = Some br \<and> covers br t"
  by (induction files) (auto split: option.splits if_splits)

lemma scan_dates_Some:
  "scan_dates pint s3 t ckpt dates = Some br \<Longrightarrow>
     \<exists>d \<in> set dates. \<exists>file \<in> set (listS3 s3 (BLOCKS_PREFIX @ ''/'' @ ckpt @ ''/'' @ d @ ''/'')).
        parseBlockRange pint (file_key ckpt d file) = Some br \<and> covers br t"
  by (induction dates) (auto split: option.splits dest: scan_files_Some)

lemma sorted_listS3: "sorted (listS3 s3 prefix)"
  by (simp add: listS3_def split: option.splits)

lemma split_file_key:
  "split_on CHR ''/'' (file_key ckpt d file) =
     split_on CHR ''/'' BLOCKS_PREFIX @ split_on CHR ''/'' ckpt @ split_on CHR ''/'' d @ split_on CHR ''/'' file"
  by (simp add: file_key_def split_on_append)

lemma parse_file_key:
  assumes "parseBlockRange pint (file_key ckpt d file) = Some br"
  shows "split_on CHR ''/'' (s3Key br) = [BLOCKS_PREFIX, ckpt, d, file]
         \<and> checkpoint br = ckpt \<and> date br = d \<and> s3Key br = file_key ckpt d file"
proof -
  from assms obtain p0 p1 p2 p3 where
    parts: "split_on CHR ''/'' (file_key ckpt d file) = [p0, p1, p2, p3]"
    and br: "checkpoint br = p1 \<and> date br = p2 \<and> s3Key br = file_key ckpt d file"
    by (auto simp: parseBlockRange_def split: list.splits if_splits)
  from parts have "p0 = BLOCKS_PREFIX \<and> p1 = ckpt \<and> p2 = d \<and> p3 = file"
    unfolding split_file_key by (rule split_on_four)
  with parts br show ?thesis by simp
qed

lemma parse_file_key_range:
  assumes "parseBlockRange pint (file_key ckpt d fl) = Some br"
  shows "\<exists>start end more. split_on CHR ''-'' fl = start # end # more \<and> start \<noteq> [] \<and> end \<noteq> []
           \<and> startBlock br = pint start \<and> endBlock br = pint end"
proof -
  from assms obtain p0 p1 p2 p3 where
    parts: "split_on CHR ''/'' (file_key ckpt d fl) = [p0, p1, p2, p3]"
    by (auto simp: parseBlockRange_def split: list.splits if_splits)
  from parts have eq: "p0 = BLOCKS_PREFIX \<and> p1 = ckpt \<and> p2 = d \<and> p3 = fl"
    unfolding split_file_key by (rule split_on_four)
  from assms parts eq show ?thesis
    by (auto simp: parseBlockRange_def split: list.splits if_splits)
qed

lemma covers_bounds:
  "covers br target \<Longrightarrow>
     \<exists>s e t. startBlock br = Some s \<and> endBlock br = Some e \<and> target = Some t \<and> s \<le> t \<and> t \<le> e"
  by (auto simp: covers_def split: option.splits)

text \<open>
  C9 (as amended). Whenever \<open>findBlockFile\<close> returns a range, the target is a number and
  the range was parsed from a key of four segments \<open>replica_cmds/checkpoint/date/file\<close>
  whose file segment splits at \<open>-\<close> into at least two parts, the first two not empty
  and read by \<^verbatim>\<open>parseInt\<close> as the numbers \<open>s\<close> and \<open>e\<close> with \<open>s \<le> target \<le> e\<close>
  (what follows the leading digits of a part, and every further part, is ignored). The
  checkpoint of the range is the last entry of the sorted checkpoint listing, which is the
  greatest one; the date and the file are entries of the listings below that checkpoint.
  Only that checkpoint is searched: when no file listed below it covers the target, the
  result is null, whatever earlier checkpoints hold.
\<close>

theorem findBlockFile_latest_checkpoint:
  "(findBlockFile pint s3 targetBlock = Some br \<longrightarrow>
      (\<exists>file start end more s e t.
         targetBlock = Some t
         \<and> split_on CHR ''/'' (s3Key br) = [BLOCKS_PREFIX, checkpoint br, date br, file]
         \<and> split_on CHR ''-'' file = start # end # more \<and> start \<noteq> [] \<and> end \<noteq> []
         \<and> pint start = Some s \<and> pint end = Some e
         \<and> parseBlockRange pint (s3Key br) = Some br
         \<and> startBlock br = Some s \<and> endBlock br = Some e \<and> s \<le> t \<and> t \<le> e
         \<and> checkpoint br = last (listS3 s3 (BLOCKS_PREFIX @ ''/''))
         \<and> (\<forall>c \<in> set (listS3 s3 (BLOCKS_PREFIX @ ''/'')). c \<le> checkpoint br)
         \<and> date br \<in> set (listS3 s3 (BLOCKS_PREFIX @ ''/'' @ checkpoint br @ ''/''))
         \<and> file \<in> set (listS3 s3 (BLOCKS_PREFIX @ ''/'' @ checkpoint br @ ''/'' @ date br @ ''/''))))
   \<and> ((\<forall>d \<in> set (listS3 s3 (BLOCKS_PREFIX @ ''/'' @ last (listS3 s3 (BLOCKS_PREFIX @ ''/'')) @ ''/'')).
        \<forall>file \<in> set (listS3 s3 (BLOCKS_PREFIX @ ''/'' @ last (listS3 s3 (BLOCKS_PREFIX @ ''/'')) @ ''/'' @ d @ ''/'')).
          \<forall>r. parseBlockRange pint (file_key (last (listS3 s3 (BLOCKS_PREFIX @ ''/''))) d file) = Some r
               \<longrightarrow> \<not> covers r target')
       \<longrightarrow> findBlockFile pint s3 target' = None)"
proof (intro conjI impI)
  assume found: "findBlockFile pint s3 targetBlock = Some br"
  define cps where "cps = listS3 s3 (BLOCKS_PREFIX @ ''/'')"
  from found have ne: "cps \<noteq> []"
    and scan: "scan_dates pint s3 targetBlock (last cps) (listS3 s3 (BLOCKS_PREFIX @ ''/'' @ last cps @ ''/'')) = Some br"
    by (auto simp: findBlockFile_def cps_def Let_def split: if_splits)
  from scan_dates_Some [OF scan] obtain d fl where
    d: "d \<in> set (listS3 s3 (BLOCKS_PREFIX @ ''/'' @ last cps @ ''/''))"
    and f: "fl \<in> set (listS3 s3 (BLOCKS_PREFIX @ ''/'' @ last cps @ ''/'' @ d @ ''/''))"
    and p: "parseBlockRange pint (file_key (last cps) d fl) = Some br"
    and c: "covers br targetBlock"
    by blast
  from parse_file_key [OF p] have k:
    "split_on CHR ''/'' (s3Key br) = [BLOCKS_PREFIX, last cps, d, fl]"
    "checkpoint br = last cps" "date br = d" "s3Key br = file_key (last cps) d fl"
    by blast+
  from covers_bounds [OF c] obtain s e t where
    se: "startBlock br = Some s" "endBlock br = Some e" "targetBlock = Some t" "s \<le> t" "t \<le> e"
    by blast
  have ps: "parseBlockRange pint (s3Key br) = Some br" using p k(4) by simp
  from parse_file_key_range [OF p] obtain start "end" more where
    rg0: "split_on CHR ''-'' fl = start # end # more" "start \<noteq> []" "end \<noteq> []"
      "startBlock br = pint start" "endBlock br = pint end"
    by blast
  from rg0 se have rg: "split_on CHR ''-'' fl = start # end # more" "start \<noteq> []" "end \<noteq> []"
      "pint start = Some s" "pint end = Some e"
    by simp_all
  have mx: "\<forall>c \<in> set cps. c \<le> last cps"
    using sorted_listS3 [of s3 "BLOCKS_PREFIX @ ''/''"] sorted_le_last unfolding cps_def by blast
  show "\<exists>file start end more s e t.
         targetBlock = Some t
         \<and> split_on CHR ''/'' (s3Key br) = [BLOCKS_PREFIX, checkpoint br, date br, file]
         \<and> split_on CHR ''-'' file = start # end # more \<and> start \<noteq> [] \<and> end \<noteq> []
         \<and> pint start = Some s \<and> pint end = Some e
         \<and> parseBlockRange pint (s3Key br) = Some br
         \<and> startBlock br = Some s \<and> endBlock br = Some e \<and> s \<le> t \<and> t \<le> e
         \<and> checkpoint br = last (listS3 s3 (BLOCKS_PREFIX @ ''/''))
         \<and> (\<forall>c \<in> set (listS3 s3 (BLOCKS_PREFIX @ ''/'')). c \<le> checkpoint br)
         \<and> date br \<in> set (listS3 s3 (BLOCKS_PREFIX @ ''/'' @ checkpoint br @ ''/''))
         \<and> file \<in> set (listS3 s3 (BLOCKS_PREFIX @ ''/'' @ checkpoint br @ ''/'' @ date br @ ''/''))"
    using k(1-3) ps se mx d f rg unfolding cps_def [symmetric]
    by (intro exI [of _ fl] exI [of _ start] exI [of _ "end"] exI [of _ more] exI [of _ s] exI [of _ e]
          exI [of _ t]) simp
next
  define cps where "cps = listS3 s3 (BLOCKS_PREFIX @ ''/'')"
  assume none: "\<forall>d \<in> set (listS3 s3 (BLOCKS_PREFIX @ ''/'' @ last (listS3 s3 (BLOCKS_PREFIX @ ''/'')) @ ''/'')).
        \<forall>file \<in> set (listS3 s3 (BLOCKS_PREFIX @ ''/'' @ last (listS3 s3 (BLOCKS_PREFIX @ ''/'')) @ ''/'' @ d @ ''/'')).
          \<forall>r. parseBlockRange pint (file_key (last (listS3 s3 (BLOCKS_PREFIX @ ''/''))) d file) = Some r
               \<longrightarrow> \<not> covers r target'"
  show "findBlockFile pint s3 target' = None"
  proof (rule ccontr)
    assume "findBlockFile pint s3 target' \<noteq> None"
    then obtain r where found: "findBlockFile pint s3 target' = Some r" by auto
    then have scan: "scan_dates pint s3 target' (last cps) (listS3 s3 (BLOCKS_PREFIX @ ''/'' @ last cps @ ''/'')) = Some r"
      by (auto simp: findBlockFile_def cps_def Let_def split: if_splits)
    from scan_dates_Some [OF scan] none show False unfolding cps_def by blast
  qed
qed

theorem findBlockFile_latest_checkpoint_witness:
  "findBlockFile ascii_parseInt sample_s3 (Some 830000005) = Some sample_range
   \<and> checkpoint sample_range = last (listS3 sample_s3 (BLOCKS_PREFIX @ ''/''))
   \<and> parseBlockRange ascii_parseInt (s3Key sample_range) = Some sample_range
   \<and> listS3 sample_s3 (BLOCKS_PREFIX @ ''/'') = [''1700000000'', ''1704067200'']
   \<and> parseBlockRange ascii_parseInt ''replica_cmds/1700000000/20231115/820000000-820010000'' \<noteq> None
   \<and> findBlockFile ascii_parseInt sample_s3 (Some 820000005) = None"
proof -
  have found: "findBlockFile ascii_parseInt sample_s3 (Some 830000005) = Some sample_range" by code_simp
  have cps: "listS3 sample_s3 (BLOCKS_PREFIX @ ''/'') = [''1700000000'', ''1704067200'']" by code_simp
  have dates: "listS3 sample_s3 (BLOCKS_PREFIX @ ''/'' @ ''1704067200'' @ ''/'') = [''20240101'']" by code_simp
  have files: "listS3 sample_s3 (BLOCKS_PREFIX @ ''/'' @ ''1704067200'' @ ''/'' @ ''20240101'' @ ''/'') = [''830000000-830010000'']"
    by code_simp
  have p: "parseBlockRange ascii_parseInt (file_key ''1704067200'' ''20240101'' ''830000000-830010000'') = Some sample_range"
    by code_simp
  have nc: "\<not> covers sample_range (Some 820000005)" by code_simp
  have old: "parseBlockRange ascii_parseInt ''replica_cmds/1700000000/20231115/820000000-820010000'' \<noteq> None"
    by code_simp
  note T = findBlockFile_latest_checkpoint [of ascii_parseInt sample_s3 "Some 830000005" sample_range "Some 820000005"]
  from T found have a: "checkpoint sample_range = last (listS3 sample_s3 (BLOCKS_PREFIX @ ''/''))
      \<and> parseBlockRange ascii_parseInt (s3Key sample_range) = Some sample_range" by blast
  from T have b: "findBlockFile ascii_parseInt sample_s3 (Some 820000005) = None"
    using cps dates files p nc by simp
  from found a b cps old show ?thesis by simp
qed

text \<open>The claim as written fails in the JavaScript version on a key that is not of the
  form \<open>{start}-{end}\<close>: for the only file \<open>5x-9y-junk\<close> of the latest checkpoint and the
  target 7, \<open>findBlockFile\<close> returns the range from 5 to 9. The Go version finds
  nothing there.\<close>

theorem findBlockFile_malformed_key_counterexample:
  "findBlockFile ascii_parseInt junk_s3 (Some 7) = Some junk_range
   \<and> s3Key junk_range = ''replica_cmds/c/d/5x-9y-junk''
   \<and> \<not> spec_well_formed_key (s3Key junk_range)
   \<and> go_findBlockFile junk_s3 7 = NotFound"
  by code_simp

text \<open>
  C8 (as amended). The records yielded for a file are numbered by their position among
  the non-blank lines of the file: the record read from the \<open>k\<close>-th non-blank line
  (counting from zero, malformed lines included) has block number \<open>start + k\<close>, and a
  malformed line yields nothing. When the file has no blank line this is the line index
  within the file. This holds for every blank test, every parser and every addition.
\<close>

theorem streamBlocks_numbering:
  "streamBlocks blank parse add start lines =
     List.map_filter (\<lambda>(k, line). map_option (Pair (add start k)) (parse line))
       (enumerate 0 (filter (\<lambda>line. \<not> blank line) lines))
   \<and> ((\<forall>line \<in> set lines. \<not> blank line) \<longrightarrow>
        streamBlocks blank parse add start lines = numbered_by_line_index blank parse add start lines)"
  by (simp add: streamBlocks_def numbered_by_line_index_def streamBlocks_from_eq numbered_from_eq)

theorem streamBlocks_numbering_witness:
  "\<not> ascii_blank ''{}'' \<and> \<not> ascii_blank ''x'' \<and> \<not> ascii_blank ''{ }''
   \<and> sample_json ''x'' = None
   \<and> streamBlocks ascii_blank sample_json int_add 830000000 [''{}'', ''x'', ''{ }'']
       = [(830000000, ''{}''), (830000002, ''{ }'')]
   \<and> numbered_by_line_index ascii_blank sample_json int_add 830000000 [''{}'', ''x'', ''{ }'']
       = [(830000000, ''{}''), (830000002, ''{ }'')]"
proof -
  have h: "\<forall>line \<in> set [''{}'', ''x'', ''{ }'']. \<not> ascii_blank line" by code_simp
  have x: "sample_json ''x'' = None" by code_simp
  have v: "numbered_by_line_index ascii_blank sample_json int_add 830000000 [''{}'', ''x'', ''{ }'']
             = [(830000000, ''{}''), (830000002, ''{ }'')]"
    by code_simp
  from streamBlocks_numbering [of ascii_blank sample_json int_add 830000000 "[''{}'', ''x'', ''{ }'']"] h
  have "streamBlocks ascii_blank sample_json int_add 830000000 [''{}'', ''x'', ''{ }'']
          = numbered_by_line_index ascii_blank sample_json int_add 830000000 [''{}'', ''x'', ''{ }'']"
    by blast
  with h v x show ?thesis by simp
qed

text \<open>The claim as written fails on a file with a blank line between two JSON objects: the
  record on line 2 gets number \<open>start + 1\<close>.\<close>

theorem streamBlocks_blank_line_counterexample:
  "ascii_blank []
   \<and> streamBlocks ascii_blank sample_json int_add 830000000 [''{}'', [], ''{ }'']
       = [(830000000, ''{}''), (830000001, ''{ }'')]
   \<and> numbered_by_line_index ascii_blank sample_json int_add 830000000 [''{}'', [], ''{ }'']
       = [(830000000, ''{}''), (830000002, ''{ }'')]
   \<and> streamBlocks ascii_blank sample_json int_add 830000000 [''{}'', [], ''{ }'']
       \<noteq> numbered_by_line_index ascii_blank sample_json int_add 830000000 [''{}'', [], ''{ }'']"
  by code_simp

subsection \<open>The Go version of the lookup\<close>

lemma go_parse_file_key:
  assumes "ParseBlockRange (file_key ckpt d fl) = Some br"
  shows "Checkpoint br = ckpt \<and> Date br = d \<and> S3Key br = file_key ckpt d fl
         \<and> (\<exists>r0 r1. split_on CHR ''-'' fl = [r0, r1]
               \<and> go_ParseInt r0 = Some (StartBlock br) \<and> go_ParseInt r1 = Some (EndBlock br))"
proof -
  from assms obtain p0 p1 p2 p3 where
    parts: "split_on CHR ''/'' (file_key ckpt d fl) = [p0, p1, p2, p3]"
    by (auto simp: ParseBlockRange_def split: list.splits if_splits)
  from parts have eq: "p0 = BLOCKS_PREFIX \<and> p1 = ckpt \<and> p2 = d \<and> p3 = fl"
    unfolding split_file_key by (rule split_on_four)
  from assms parts eq show ?thesis
    by (auto simp: ParseBlockRange_def split: list.splits if_splits option.splits)
qed

lemma go_scan_files_Some:
  "go_scan_files t ckpt d files = Some br \<Longrightarrow>
     \<exists>fl \<in> set files. ParseBlockRange (file_key ckpt d fl) = Some br \<and> StartBlock br \<le> t \<and> t \<le> EndBlock br"
  by (induction files) (auto split: option.splits if_splits)

lemma go_scan_dates_Some:
  "go_scan_dates s3 t ckpt dates = Some br \<Longrightarrow>
     \<exists>d \<in> set dates. \<exists>files. go_listS3 s3 (BLOCKS_PREFIX @ ''/'' @ ckpt @ ''/'' @ d @ ''/'') = Some files
        \<and> (\<exists>fl \<in> set files. ParseBlockRange (file_key ckpt d fl) = Some br \<and> StartBlock br \<le> t \<and> t \<le> EndBlock br)"
proof (induction dates)
  case Nil
  then show ?case by simp
next
  case (Cons d dates)
  show ?case
  proof (cases "go_listS3 s3 (BLOCKS_PREFIX @ ''/'' @ ckpt @ ''/'' @ d @ ''/'')")
    case None
    with Cons show ?thesis by auto
  next
    case (Some files)
    show ?thesis
    proof (cases "go_scan_files t ckpt d files")
      case None
      with Some Cons show ?thesis by auto
    next
      case found: (Some r)
      with Some Cons.prems have "r = br" by simp
      with found go_scan_files_Some [of t ckpt d files br] Some show ?thesis by auto
    qed
  qed
qed

lemma sorted_go_listS3: "go_listS3 s3 prefix = Some items \<Longrightarrow> sorted items"
  by (auto simp: go_listS3_def split: option.splits)

text \<open>The Go function returns a range under the same conditions: four segments, a file
  name of exactly two signed decimal numbers, the target enclosed, and the last checkpoint
  of the sorted listing.\<close>

lemma go_findBlockFile_latest_checkpoint:
  assumes "go_findBlockFile s3 targetBlock = Found br"
  shows "\<exists>cps dates files fl r0 r1.
           go_listS3 s3 (BLOCKS_PREFIX @ ''/'') = Some cps \<and> cps \<noteq> []
           \<and> Checkpoint br = last cps \<and> (\<forall>c \<in> set cps. c \<le> Checkpoint br)
           \<and> go_listS3 s3 (BLOCKS_PREFIX @ ''/'' @ Checkpoint br @ ''/'') = Some dates \<and> Date br \<in> set dates
           \<and> go_listS3 s3 (BLOCKS_PREFIX @ ''/'' @ Checkpoint br @ ''/'' @ Date br @ ''/'') = Some files \<and> fl \<in> set files
           \<and> S3Key br = file_key (Checkpoint br) (Date br) fl
           \<and> split_on CHR ''-'' fl = [r0, r1]
           \<and> go_ParseInt r0 = Some (StartBlock br) \<and> go_ParseInt r1 = Some (EndBlock br)
           \<and> StartBlock br \<le> targetBlock \<and> targetBlock \<le> EndBlock br"
proof -
  from assms obtain cps dates where
    cps: "go_listS3 s3 (BLOCKS_PREFIX @ ''/'') = Some cps" "cps \<noteq> []"
    and dates: "go_listS3 s3 (BLOCKS_PREFIX @ ''/'' @ last cps @ ''/'') = Some dates"
    and scan: "go_scan_dates s3 targetBlock (last cps) dates = Some br"
    by (auto simp: go_findBlockFile_def split: option.splits if_splits)
  from go_scan_dates_Some [OF scan] obtain d files fl where
    d: "d \<in> set dates"
    and files: "go_listS3 s3 (BLOCKS_PREFIX @ ''/'' @ last cps @ ''/'' @ d @ ''/'') = Some files"
    and fl: "fl \<in> set files"
    and p: "ParseBlockRange (file_key (last cps) d fl) = Some br"
    and c: "StartBlock br \<le> targetBlock" "targetBlock \<le> EndBlock br"
    by blast
  from go_parse_file_key [OF p] obtain r0 r1 where
    k: "Checkpoint br = last cps" "Date br = d" "S3Key br = file_key (last cps) d fl"
    and r: "split_on CHR ''-'' fl = [r0, r1]" "go_ParseInt r0 = Some (StartBlock br)"
       "go_ParseInt r1 = Some (EndBlock br)"
    by blast
  have mx: "\<forall>c \<in> set cps. c \<le> last cps"
    using sorted_go_listS3 [OF cps(1)] sorted_le_last by blast
  from cps dates d files fl k r c mx show ?thesis
    by (intro exI [of _ cps] exI [of _ dates] exI [of _ files] exI [of _ fl] exI [of _ r0] exI [of _ r1]) simp
qed

section \<open>Reconnection: theorems\<close>

lemma sleeps_append: "sleeps (xs @ ys) = sleeps xs @ sleeps ys"
  by (induction xs rule: sleeps.induct) simp_all

lemma opens_append: "opens (xs @ ys) = opens xs @ opens ys"
  by (induction xs rule: opens.induct) simp_all

lemma timers_append: "timers (xs @ ys) = timers xs @ timers ys"
  by (induction xs rule: timers.induct) simp_all

lemma observe_append: "observe (xs @ ys) = observe xs @ observe ys"
  by (induction xs rule: observe.induct) simp_all

text \<open>A run shows one subscribe intent without start position for each stream it opens,
  and nothing else: no action of the code is a gap notification.\<close>

lemma observe_opens: "observe xs = map (\<lambda>_. SubscribeIntent None) (opens xs)"
  by (induction xs rule: opens.induct) simp_all

subsection \<open>JavaScript\<close>

lemma call_lost:
  "streamL2Orderbook coin nLevels True lost =
     (\<lparr>retryCount = 1, msgCount = 0\<rparr>,
      [LogConnecting, OpenStream coin nLevels, LogReinitialized ''reinitialized'', LogWaiting 2,
       SetTimeout 2000 coin nLevels True])"
  by (simp add: streamL2Orderbook_def lost_def on_error_def maxRetries_def backoff_def baseDelay_def)

lemma session_lost:
  "js_session coin nLevels True (Suc pending) (replicate k lost) =
     replicate k (streamL2Orderbook coin nLevels True lost)"
proof (induction k arbitrary: pending)
  case 0
  show ?case by simp
next
  case (Suc k)
  have "length (timers (snd (streamL2Orderbook coin nLevels True lost))) = 1"
    by (simp add: call_lost)
  with Suc.IH [of pending] show ?case by (simp add: Let_def)
qed

text \<open>
  C2, at the failing input: two streams in a row fail with \<open>DATA_LOSS\<close> before any
  update. The second call starts again from \<open>retryCount = 0\<close>, so the counter
  is 1 after each failure and both waits are 2000 ms.
\<close>

theorem js_counter_restarts_without_data:
  "map (retryCount \<circ> fst) (js_session ''BTC'' 20 True 1 [lost, lost]) = [1, 1]
   \<and> map (timers \<circ> snd) (js_session ''BTC'' 20 True 1 [lost, lost]) = [[2000], [2000]]"
proof -
  have "js_session ''BTC'' 20 True (Suc 0) (replicate 2 lost) = replicate 2 (streamL2Orderbook ''BTC'' 20 True lost)"
    by (rule session_lost)
  then show ?thesis by (simp add: call_lost numeral_2_eq_2)
qed

text \<open>
  C3, at the failing input: five streams in a row fail with \<open>DATA_LOSS\<close> before any
  update. Every wait is 2000 ms; the waits of the claim are 2000, 4000, 8000, 16000 and
  32000 ms.
\<close>

theorem js_backoff_stays_at_base:
  "concat (map (timers \<circ> snd) (js_session ''BTC'' 20 True 1 (replicate 5 lost))) = [2000, 2000, 2000, 2000, 2000]
   \<and> map (backoff baseDelay) [1, 2, 3, 4, 5] = [2000, 4000, 8000, 16000, 32000]"
proof -
  have "js_session ''BTC'' 20 True (Suc 0) (replicate 5 lost) = replicate 5 (streamL2Orderbook ''BTC'' 20 True lost)"
    by (rule session_lost)
  then show ?thesis by (simp add: call_lost backoff_def baseDelay_def eval_nat_numeral)
qed

text \<open>The JavaScript session never gives up on such streams, however many there are.\<close>

lemma js_session_never_gives_up:
  "length (js_session coin nLevels True 1 (replicate k lost)) = k
   \<and> (\<forall>r \<in> set (js_session coin nLevels True 1 (replicate k lost)). timers (snd r) = [2000])"
  using session_lost [of coin nLevels 0 k] by (simp add: call_lost)

lemma js_events_append:
  "js_events coin nLevels ar st (xs @ ys) =
     (fst (js_events coin nLevels ar (fst (js_events coin nLevels ar st xs)) ys),
      snd (js_events coin nLevels ar st xs)
        @ snd (js_events coin nLevels ar (fst (js_events coin nLevels ar st xs)) ys))"
  by (induction xs arbitrary: st) (simp_all add: split_beta)

text \<open>Updates set no timer and open no stream, and from a counter at 0 they leave it
  at 0.\<close>

lemma js_events_updates:
  "retryCount st = 0 \<Longrightarrow>
     retryCount (fst (js_events coin nLevels ar st (map UpdateEv us))) = 0
     \<and> timers (snd (js_events coin nLevels ar st (map UpdateEv us))) = []
     \<and> opens (snd (js_events coin nLevels ar st (map UpdateEv us))) = []"
proof (induction us arbitrary: st)
  case Nil
  then show ?case by simp
next
  case (Cons u us)
  have z: "retryCount (fst (on_update st u)) = 0"
    "timers (snd (on_update st u)) = []" "opens (snd (on_update st u)) = []"
    using Cons.prems by (simp_all add: on_update_def Let_def)
  from Cons.IH [OF z(1)] z show ?case
    by (simp add: split_beta timers_append opens_append)
qed

lemma call_emits:
  "streamL2Orderbook coin nLevels ar (Emits es) =
     (fst (js_events coin nLevels ar \<lparr>retryCount = 0, msgCount = 0\<rparr> es),
      LogConnecting # OpenStream coin nLevels # snd (js_events coin nLevels ar \<lparr>retryCount = 0, msgCount = 0\<rparr> es))"
  by (simp add: streamL2Orderbook_def maxRetries_def split_beta Let_def)

text \<open>A call whose stream fails with \<open>DATA_LOSS\<close>, after any number of updates, opens
  the stream with the coin and the number of levels and ends by setting one timer for a
  call with the same arguments.\<close>

lemma call_data_loss:
  "\<exists>acts. snd (streamL2Orderbook coin nLevels True (Emits (map UpdateEv us @ [ErrorEv DATA_LOSS m])))
       = LogConnecting # OpenStream coin nLevels # acts
           @ [LogReinitialized m, LogWaiting (backoff baseDelay 1 div 1000),
              SetTimeout (backoff baseDelay 1) coin nLevels True]
     \<and> timers acts = [] \<and> opens acts = []"
proof -
  define st0 where "st0 = \<lparr>retryCount = 0, msgCount = 0\<rparr>"
  define acts where "acts = snd (js_events coin nLevels True st0 (map UpdateEv us))"
  define st1 where "st1 = fst (js_events coin nLevels True st0 (map UpdateEv us))"
  have "retryCount st0 = 0" by (simp add: st0_def)
  from js_events_updates [OF this, of coin nLevels True us]
  have z: "retryCount st1 = 0" "timers acts = []" "opens acts = []"
    by (simp_all add: st1_def acts_def)
  have e: "snd (js_events coin nLevels True st1 [ErrorEv DATA_LOSS m])
      = [LogReinitialized m, LogWaiting (backoff baseDelay 1 div 1000),
         SetTimeout (backoff baseDelay 1) coin nLevels True]"
    using z(1) by (simp add: on_error_def Let_def maxRetries_def split_beta)
  have "snd (streamL2Orderbook coin nLevels True (Emits (map UpdateEv us @ [ErrorEv DATA_LOSS m])))
       = LogConnecting # OpenStream coin nLevels # acts
           @ [LogReinitialized m, LogWaiting (backoff baseDelay 1 div 1000),
              SetTimeout (backoff baseDelay 1) coin nLevels True]"
    unfolding call_emits st0_def [symmetric]
    using e by (simp add: js_events_append acts_def [symmetric] st1_def [symmetric] del: js_events.simps)
  with z show ?thesis by blast
qed

lemma call_starts:
  "\<exists>acts. snd (streamL2Orderbook coin nLevels ar (Emits es)) = LogConnecting # OpenStream coin nLevels # acts"
  by (simp add: call_emits)

text \<open>The timer makes the next call: the session goes on with a call that opens the
  stream with the same coin and number of levels.\<close>

lemma js_session_reopens:
  "\<exists>acts acts' more.
     map snd (js_session coin nLevels True 1 (Emits (map UpdateEv us @ [ErrorEv DATA_LOSS m]) # Emits es # envs))
       = (LogConnecting # OpenStream coin nLevels # acts
            @ [LogReinitialized m, LogWaiting (backoff baseDelay 1 div 1000),
               SetTimeout (backoff baseDelay 1) coin nLevels True])
         # (LogConnecting # OpenStream coin nLevels # acts') # more
     \<and> timers acts = [] \<and> opens acts = []"
proof -
  from call_data_loss [of coin nLevels us m] obtain acts where
    a: "snd (streamL2Orderbook coin nLevels True (Emits (map UpdateEv us @ [ErrorEv DATA_LOSS m])))
       = LogConnecting # OpenStream coin nLevels # acts
           @ [LogReinitialized m, LogWaiting (backoff baseDelay 1 div 1000),
              SetTimeout (backoff baseDelay 1) coin nLevels True]"
    and z: "timers acts = []" "opens acts = []"
    by blast
  from call_starts [of coin nLevels True es] obtain acts' where
    b: "snd (streamL2Orderbook coin nLevels True (Emits es)) = LogConnecting # OpenStream coin nLevels # acts'"
    by blast
  have t: "length (timers (snd (streamL2Orderbook coin nLevels True (Emits (map UpdateEv us @ [ErrorEv DATA_LOSS m]))))) = 1"
    unfolding a using z by (simp add: timers_append)
  have "map snd (js_session coin nLevels True (Suc 0) (Emits (map UpdateEv us @ [ErrorEv DATA_LOSS m]) # Emits es # envs))
      = snd (streamL2Orderbook coin nLevels True (Emits (map UpdateEv us @ [ErrorEv DATA_LOSS m])))
        # snd (streamL2Orderbook coin nLevels True (Emits es))
        # map snd (js_session coin nLevels True
            (length (timers (snd (streamL2Orderbook coin nLevels True (Emits es))))) envs)"
    using t by (simp add: Let_def)
  with a b z show ?thesis by (simp del: js_session.simps)
qed

text \<open>An error with another code, or any error when auto-reconnect is off, is logged and
  ends the session: no timer, no further call.\<close>

lemma js_session_other_error:
  "\<not> (c = DATA_LOSS \<and> ar) \<Longrightarrow>
   \<exists>acts. map snd (js_session coin nLevels ar 1 (Emits (map UpdateEv us @ [ErrorEv c m]) # envs))
       = [LogConnecting # OpenStream coin nLevels # acts @ [LogGrpcError c m]]
     \<and> timers acts = [] \<and> opens acts = []"
proof -
  assume h: "\<not> (c = DATA_LOSS \<and> ar)"
  define st0 where "st0 = \<lparr>retryCount = 0, msgCount = 0\<rparr>"
  define acts where "acts = snd (js_events coin nLevels ar st0 (map UpdateEv us))"
  define st1 where "st1 = fst (js_events coin nLevels ar st0 (map UpdateEv us))"
  have "retryCount st0 = 0" by (simp add: st0_def)
  from js_events_updates [OF this, of coin nLevels ar us]
  have z: "timers acts = []" "opens acts = []"
    by (simp_all add: acts_def)
  have e: "snd (js_events coin nLevels ar st1 [ErrorEv c m]) = [LogGrpcError c m]"
    using h by (auto simp: on_error_def split_beta)
  have a: "snd (streamL2Orderbook coin nLevels ar (Emits (map UpdateEv us @ [ErrorEv c m])))
       = LogConnecting # OpenStream coin nLevels # acts @ [LogGrpcError c m]"
    unfolding call_emits st0_def [symmetric]
    using e by (simp add: js_events_append acts_def [symmetric] st1_def [symmetric] del: js_events.simps)
  have "map snd (js_session coin nLevels ar (Suc 0) (Emits (map UpdateEv us @ [ErrorEv c m]) # envs))
      = [snd (streamL2Orderbook coin nLevels ar (Emits (map UpdateEv us @ [ErrorEv c m])))]"
  proof (cases envs)
    case Nil
    then show ?thesis by (simp add: Let_def)
  next
    case (Cons env envs')
    have "length (timers (snd (streamL2Orderbook coin nLevels ar (Emits (map UpdateEv us @ [ErrorEv c m]))))) = 0"
      unfolding a using z by (simp add: timers_append)
    with Cons show ?thesis by (simp add: Let_def)
  qed
  with a z show ?thesis by simp
qed

subsection \<open>Go\<close>

lemma recv_loop_opens: "go_recv_loop rc mc rs = (acts, rc', out) \<Longrightarrow> opens acts = []"
proof (induction rc mc rs arbitrary: acts rc' out rule: go_recv_loop.induct)
  case (1 rc mc)
  then show ?case by simp
next
  case (2 rc mc rest)
  then show ?case by simp
next
  case (3 rc mc err rest)
  then show ?case by (auto split: if_splits)
next
  case (4 rc mc update rest)
  then show ?case by (auto split: prod.splits simp: opens_append)
qed


lemma recv_loop_error:
  "go_recv_loop rc mc rs = (acts, rc', Returned (ReturnErr w e)) \<Longrightarrow> w = ''stream error'' \<and> \<not> is_data_loss e"
proof (induction rc mc rs arbitrary: acts rc' rule: go_recv_loop.induct)
  case (1 rc mc)
  then show ?case by simp
next
  case (2 rc mc rest)
  then show ?case by simp
next
  case (3 rc mc err rest)
  then show ?case by (auto split: if_splits)
next
  case (4 rc mc update rest)
  then show ?case by (auto split: prod.splits)
qed

lemma recv_loop_result:
  "go_recv_loop rc mc rs = (acts, rc', Returned r) \<Longrightarrow> r = ReturnNil \<or> (\<exists>e. r = ReturnErr ''stream error'' e)"
proof (induction rc mc rs arbitrary: acts rc' rule: go_recv_loop.induct)
  case (1 rc mc)
  then show ?case by simp
next
  case (2 rc mc rest)
  then show ?case by simp
next
  case (3 rc mc err rest)
  then show ?case by (auto split: if_splits)
next
  case (4 rc mc update rest)
  then show ?case by (auto split: prod.splits)
qed

lemma retry_loop_returned:
  assumes "rc < maxRetries" "dial_err a = None" "open_err a = None"
    and "go_recv_loop rc 0 (recvs a) = (acts, rc', Returned r)"
  shows "go_retry_loop coin nLevels rc (a # rest) = ([Dial, hello rc, OpenStream coin nLevels] @ acts, r)"
  using assms by simp

lemma retry_loop_opens:
  "\<forall>x \<in> set (opens (fst (go_retry_loop coin nLevels rc attempts))). x = (coin, nLevels)"
proof (induction coin nLevels rc attempts rule: go_retry_loop.induct)
  case (1 coin nLevels rc)
  show ?case by simp
next
  case (2 coin nLevels rc a rest)
  show ?case
  proof (cases "rc < maxRetries \<and> dial_err a = None \<and> open_err a = None")
    case False
    then show ?thesis by (auto split: option.splits simp: hello_def)
  next
    case True
    obtain acts rc' out where rec: "go_recv_loop rc 0 (recvs a) = (acts, rc', out)"
      by (cases "go_recv_loop rc 0 (recvs a)") auto
    note no = recv_loop_opens [OF rec]
    show ?thesis
    proof (cases out)
      case (Broke shouldRetry)
      show ?thesis
      proof (cases shouldRetry)
        case True
        obtain more r where tl: "go_retry_loop coin nLevels rc' rest = (more, r)"
          by (cases "go_retry_loop coin nLevels rc' rest") auto
        from "2.IH" \<open>rc < maxRetries \<and> dial_err a = None \<and> open_err a = None\<close> rec Broke True tl
        have "\<forall>x \<in> set (opens more). x = (coin, nLevels)" by auto
        with \<open>rc < maxRetries \<and> dial_err a = None \<and> open_err a = None\<close> rec Broke True tl no
        show ?thesis by (simp add: opens_append hello_def)
      next
        case False
        with \<open>rc < maxRetries \<and> dial_err a = None \<and> open_err a = None\<close> rec Broke no
        show ?thesis by (simp add: opens_append hello_def)
      qed
    next
      case (Returned r)
      with True rec no show ?thesis by (simp add: opens_append hello_def)
    next
      case Blocked
      with True rec no show ?thesis by (simp add: opens_append hello_def)
    qed
  qed
qed

text \<open>The Go loop resets its counter only at the first update of an attempt: without an
  update the counter does not go down, and after the first update it is at most 1 when
  the attempt ends.\<close>

lemma go_counter_after_first_update:
  "1 \<le> mc \<Longrightarrow> go_recv_loop rc mc rs = (acts, rc', out) \<Longrightarrow> rc \<le> rc' \<and> rc' \<le> rc + 1"
proof (induction rc mc rs arbitrary: acts rc' out rule: go_recv_loop.induct)
  case (1 rc mc)
  then show ?case by simp
next
  case (2 rc mc rest)
  then show ?case by simp
next
  case (3 rc mc err rest)
  then show ?case by (auto split: if_splits)
next
  case (4 rc mc update rest)
  obtain a r out' where rec: "go_recv_loop (if mc + 1 = 1 then 0 else rc) (mc + 1) rest = (a, r, out')"
    by (cases "go_recv_loop (if mc + 1 = 1 then 0 else rc) (mc + 1) rest") auto
  from "4.prems"(1) have keep: "(if mc + 1 = 1 then 0 else rc) = rc" by simp
  from "4.IH" [OF _ rec] have "(if mc + 1 = 1 then 0 else rc) \<le> r \<and> r \<le> (if mc + 1 = 1 then 0 else rc) + 1"
    by simp
  with keep have "rc \<le> r \<and> r \<le> rc + 1" by simp
  moreover from "4.prems"(2) rec have "rc' = r" by simp
  ultimately show ?case by simp
qed

lemma go_counter_kept_without_update:
  "list_all (\<lambda>r. case r of Recv u \<Rightarrow> False | _ \<Rightarrow> True) rs \<Longrightarrow>
     go_recv_loop rc mc rs = (acts, rc', out) \<Longrightarrow> rc \<le> rc' \<and> rc' \<le> rc + 1"
proof (induction rc mc rs arbitrary: acts rc' out rule: go_recv_loop.induct)
  case (1 rc mc)
  then show ?case by simp
next
  case (2 rc mc rest)
  then show ?case by simp
next
  case (3 rc mc err rest)
  then show ?case by (auto split: if_splits)
next
  case (4 rc mc update rest)
  then show ?case by simp
qed

lemma go_counter_reset_by_first_update:
  "go_recv_loop rc 0 (Recv update # rest) = (acts, rc', out) \<Longrightarrow> rc' \<le> 1"
proof -
  assume h: "go_recv_loop rc 0 (Recv update # rest) = (acts, rc', out)"
  obtain a r out' where rec: "go_recv_loop 0 1 rest = (a, r, out')"
    by (cases "go_recv_loop 0 1 rest") auto
  from go_counter_after_first_update [OF _ rec] have "r \<le> 1" by simp
  moreover from h rec have "rc' = r" by simp
  ultimately show ?thesis by simp
qed

lemma retry_loop_error:
  "go_retry_loop coin nLevels rc attempts = (trace, ReturnErr w e) \<Longrightarrow>
     w = ''failed to connect'' \<or> w = ''failed to start stream'' \<or> (w = ''stream error'' \<and> \<not> is_data_loss e)"
proof (induction coin nLevels rc attempts arbitrary: trace rule: go_retry_loop.induct)
  case (1 coin nLevels rc)
  then show ?case by (simp split: if_splits)
next
  case (2 coin nLevels rc a rest)
  show ?case
  proof (cases "rc < maxRetries \<and> dial_err a = None \<and> open_err a = None")
    case False
    with "2.prems" show ?thesis by (auto split: option.splits if_splits)
  next
    case True
    obtain acts rc' out where rec: "go_recv_loop rc 0 (recvs a) = (acts, rc', out)"
      by (cases "go_recv_loop rc 0 (recvs a)") auto
    show ?thesis
    proof (cases out)
      case (Broke shouldRetry)
      show ?thesis
      proof (cases shouldRetry)
        case yes: True
        obtain more r where tl: "go_retry_loop coin nLevels rc' rest = (more, r)"
          by (cases "go_retry_loop coin nLevels rc' rest") auto
        from "2.prems" True rec Broke yes tl have "r = ReturnErr w e" by simp
        with "2.IH" True rec Broke yes tl show ?thesis by auto
      next
        case False
        with "2.prems" True rec Broke show ?thesis by simp
      qed
    next
      case (Returned r)
      with "2.prems" True rec have "r = ReturnErr w e" by simp
      with rec Returned recv_loop_error [of rc 0 "recvs a" acts rc' w e] show ?thesis by simp
    next
      case Blocked
      with "2.prems" True rec show ?thesis by simp
    qed
  qed
qed

text \<open>The sibling loop in Go keeps its counter across attempts: ten streams in a row that
  fail with \<open>DATA_LOSS\<close> before any update are answered with nine waits, doubling from
  2 s, and then the function returns \<open>nil\<close>, whatever environments remain.\<close>

lemma go_gives_up_after_max:
  "go_streamL2Orderbook coin nLevels (replicate 10 go_lost @ rest) = (trace, r) \<Longrightarrow>
     r = ReturnNil
     \<and> sleeps trace = map (backoff go_baseDelay) [1, 2, 3, 4, 5, 6, 7, 8, 9]
     \<and> opens trace = replicate 10 (coin, nLevels)"
  by (auto simp: go_streamL2Orderbook_def go_lost_def maxRetries_def hello_def eval_nat_numeral)




text \<open>A \<open>DATA_LOSS\<close> status from \<^verbatim>\<open>Recv\<close>, after any number of updates: the counter,
  reset by the first update of the attempt, is incremented; with retries left the loop
  logs, sleeps the backoff of the new counter and breaks with \<open>shouldRetry\<close> set.\<close>

lemma recv_loop_later_data_loss:
  "is_data_loss err \<Longrightarrow> 1 \<le> mc \<Longrightarrow> rc + 1 < maxRetries \<Longrightarrow>
     \<exists>acts. go_recv_loop rc mc (map Recv us @ RecvErr err # rs)
        = (acts @ [LogReinitialized (err_message err), LogWaiting (backoff go_baseDelay (rc + 1)),
                   Sleep (backoff go_baseDelay (rc + 1))], rc + 1, Broke True)
      \<and> opens acts = [] \<and> sleeps acts = []"
proof (induction us arbitrary: mc)
  case Nil
  then show ?case by simp
next
  case (Cons u us)
  from Cons.prems have m: "1 \<le> mc + 1" by simp
  from Cons.IH [OF Cons.prems(1) m Cons.prems(3)] obtain acts where
    r: "go_recv_loop rc (mc + 1) (map Recv us @ RecvErr err # rs)
        = (acts @ [LogReinitialized (err_message err), LogWaiting (backoff go_baseDelay (rc + 1)),
                   Sleep (backoff go_baseDelay (rc + 1))], rc + 1, Broke True)"
    and z: "opens acts = []" "sleeps acts = []"
    by blast
  from Cons.prems(2) have k: "(if mc + 1 = 1 then 0 else rc) = rc" "(mc + 1 = 1) = False" by simp_all
  have "go_recv_loop rc mc (map Recv (u # us) @ RecvErr err # rs)
        = ((Display u (mc + 1) # acts) @ [LogReinitialized (err_message err), LogWaiting (backoff go_baseDelay (rc + 1)),
                   Sleep (backoff go_baseDelay (rc + 1))], rc + 1, Broke True)"
    using r k by simp
  moreover have "opens (Display u (mc + 1) # acts) = []" "sleeps (Display u (mc + 1) # acts) = []"
    using z by simp_all
  ultimately show ?case by blast
qed

lemma recv_loop_data_loss:
  assumes "is_data_loss err" and "(if us = [] then rc else 0) + 1 < maxRetries"
  shows "\<exists>acts. go_recv_loop rc 0 (map Recv us @ RecvErr err # rs)
        = (acts @ [LogReinitialized (err_message err),
                   LogWaiting (backoff go_baseDelay ((if us = [] then rc else 0) + 1)),
                   Sleep (backoff go_baseDelay ((if us = [] then rc else 0) + 1))],
           (if us = [] then rc else 0) + 1, Broke True)
      \<and> opens acts = [] \<and> sleeps acts = []"
proof (cases us)
  case Nil
  with assms show ?thesis by simp
next
  case (Cons u us')
  have "(0::nat) + 1 < maxRetries" by (simp add: maxRetries_def)
  from recv_loop_later_data_loss [OF assms(1) _ this, of 1 us' rs] obtain acts where
    r: "go_recv_loop 0 1 (map Recv us' @ RecvErr err # rs)
        = (acts @ [LogReinitialized (err_message err), LogWaiting (backoff go_baseDelay (0 + 1)),
                   Sleep (backoff go_baseDelay (0 + 1))], 0 + 1, Broke True)"
    and z: "opens acts = []" "sleeps acts = []"
    by auto
  have "go_recv_loop rc 0 (map Recv us @ RecvErr err # rs)
        = ((LogFirstUpdate # Display u 1 # acts) @ [LogReinitialized (err_message err),
                   LogWaiting (backoff go_baseDelay ((if us = [] then rc else 0) + 1)),
                   Sleep (backoff go_baseDelay ((if us = [] then rc else 0) + 1))],
           (if us = [] then rc else 0) + 1, Broke True)"
    using r Cons by simp
  moreover have "opens (LogFirstUpdate # Display u 1 # acts) = []" "sleeps (LogFirstUpdate # Display u 1 # acts) = []"
    using z by simp_all
  ultimately show ?thesis by blast
qed

text \<open>Any other error from \<^verbatim>\<open>Recv\<close>, after any number of updates, closes the connection
  and is returned: no wait.\<close>

lemma recv_loop_other_error:
  "\<not> is_data_loss err \<Longrightarrow>
     \<exists>acts rc'. go_recv_loop rc mc (map Recv us @ RecvErr err # rs)
        = (acts @ [CloseConn], rc', Returned (ReturnErr ''stream error'' err))
      \<and> opens acts = [] \<and> sleeps acts = []"
proof (induction us arbitrary: rc mc)
  case Nil
  then show ?case by simp
next
  case (Cons u us)
  from Cons.IH [OF Cons.prems, of "if mc + 1 = 1 then 0 else rc" "mc + 1"] obtain acts rc' where
    r: "go_recv_loop (if mc + 1 = 1 then 0 else rc) (mc + 1) (map Recv us @ RecvErr err # rs)
        = (acts @ [CloseConn], rc', Returned (ReturnErr ''stream error'' err))"
    and z: "opens acts = []" "sleeps acts = []"
    by blast
  have "go_recv_loop rc mc (map Recv (u # us) @ RecvErr err # rs)
        = (((if mc + 1 = 1 then [LogFirstUpdate] else []) @ Display u (mc + 1) # acts) @ [CloseConn], rc',
           Returned (ReturnErr ''stream error'' err))"
    using r by simp
  moreover have "opens ((if mc + 1 = 1 then [LogFirstUpdate] else []) @ Display u (mc + 1) # acts) = []"
    "sleeps ((if mc + 1 = 1 then [LogFirstUpdate] else []) @ Display u (mc + 1) # acts) = []"
    using z by (simp_all add: opens_append sleeps_append)
  ultimately show ?case by blast
qed

text \<open>A pass through the outer loop that gets its connection and its stream starts with
  the dial, the log line and the request for the coin and the number of levels.\<close>

lemma retry_loop_starts:
  assumes "rc < maxRetries"
  shows "\<exists>more. fst (go_retry_loop coin nLevels rc (\<lparr>dial_err = None, open_err = None, recvs = rs\<rparr> # rest))
           = Dial # hello rc # OpenStream coin nLevels # more"
proof -
  obtain acts rc' out where rec: "go_recv_loop rc 0 rs = (acts, rc', out)"
    by (cases "go_recv_loop rc 0 rs") auto
  show ?thesis
  proof (cases out)
    case (Broke shouldRetry)
    with assms rec show ?thesis by (cases shouldRetry) (simp_all add: split_beta)
  next
    case (Returned r)
    with assms rec show ?thesis by simp
  next
    case Blocked
    with assms rec show ?thesis by simp
  qed
qed

text \<open>The resume of the Go loop. After a \<open>DATA_LOSS\<close> with retries left the function
  sleeps the backoff of the counter, closes the connection, dials again and opens the
  stream with the same coin and number of levels.\<close>

lemma retry_loop_reopens:
  assumes lt: "rc < maxRetries" and dl: "is_data_loss err"
    and left: "(if us = [] then rc else 0) + 1 < maxRetries"
  shows "\<exists>acts more.
           fst (go_retry_loop coin nLevels rc
                  (\<lparr>dial_err = None, open_err = None, recvs = map Recv us @ RecvErr err # rs\<rparr>
                   # \<lparr>dial_err = None, open_err = None, recvs = rs'\<rparr> # rest))
             = [Dial, hello rc, OpenStream coin nLevels] @ acts
               @ [LogReinitialized (err_message err),
                  LogWaiting (backoff go_baseDelay ((if us = [] then rc else 0) + 1)),
                  Sleep (backoff go_baseDelay ((if us = [] then rc else 0) + 1)),
                  CloseConn, Dial, hello ((if us = [] then rc else 0) + 1), OpenStream coin nLevels]
               @ more
           \<and> opens acts = [] \<and> sleeps acts = []"
proof -
  define rc1 where "rc1 = (if us = [] then rc else 0) + 1"
  from recv_loop_data_loss [OF dl left, of rs] obtain acts where
    r: "go_recv_loop rc 0 (map Recv us @ RecvErr err # rs)
        = (acts @ [LogReinitialized (err_message err), LogWaiting (backoff go_baseDelay rc1),
                   Sleep (backoff go_baseDelay rc1)], rc1, Broke True)"
    and z: "opens acts = []" "sleeps acts = []"
    unfolding rc1_def by blast
  from left have lt1: "rc1 < maxRetries" by (simp add: rc1_def)
  from retry_loop_starts [OF lt1, of coin nLevels rs' rest] obtain more where
    s: "fst (go_retry_loop coin nLevels rc1 (\<lparr>dial_err = None, open_err = None, recvs = rs'\<rparr> # rest))
           = Dial # hello rc1 # OpenStream coin nLevels # more"
    by blast
  have "fst (go_retry_loop coin nLevels rc
                  (\<lparr>dial_err = None, open_err = None, recvs = map Recv us @ RecvErr err # rs\<rparr>
                   # \<lparr>dial_err = None, open_err = None, recvs = rs'\<rparr> # rest))
        = [Dial, hello rc, OpenStream coin nLevels] @ acts
               @ [LogReinitialized (err_message err), LogWaiting (backoff go_baseDelay rc1),
                  Sleep (backoff go_baseDelay rc1), CloseConn, Dial, hello rc1, OpenStream coin nLevels]
               @ more"
    using lt r s by (simp add: split_beta del: go_recv_loop.simps)
  with z show ?thesis unfolding rc1_def by blast
qed

text \<open>Any other error from \<^verbatim>\<open>Recv\<close> ends the function with that error: one stream was
  opened, there is no wait, and the environments that remain are never used.\<close>

lemma retry_loop_other_error:
  assumes lt: "rc < maxRetries" and nd: "\<not> is_data_loss err"
  shows "\<exists>acts.
           go_retry_loop coin nLevels rc
             (\<lparr>dial_err = None, open_err = None, recvs = map Recv us @ RecvErr err # rs\<rparr> # rest)
             = ([Dial, hello rc, OpenStream coin nLevels] @ acts @ [CloseConn], ReturnErr ''stream error'' err)
           \<and> opens acts = [] \<and> sleeps acts = []"
proof -
  from recv_loop_other_error [OF nd, of rc 0 us rs] obtain acts rc' where
    r: "go_recv_loop rc 0 (map Recv us @ RecvErr err # rs)
        = (acts @ [CloseConn], rc', Returned (ReturnErr ''stream error'' err))"
    and z: "opens acts = []" "sleeps acts = []"
    by blast
  have "go_retry_loop coin nLevels rc
             (\<lparr>dial_err = None, open_err = None, recvs = map Recv us @ RecvErr err # rs\<rparr> # rest)
             = ([Dial, hello rc, OpenStream coin nLevels] @ acts @ [CloseConn], ReturnErr ''stream error'' err)"
    using lt r by (simp del: go_recv_loop.simps)
  with z show ?thesis by blast
qed

text \<open>
  C6 (as amended). When a \<open>DATA_LOSS\<close> error arrives, auto-reconnect is on and retries
  are left, the JavaScript handler logs that the server was reinitialized, logs the wait
  and sets the timer that calls the function again with the same arguments, and the call
  made by the timer opens the stream with the same coin and number of levels. The Go
  loop logs, sleeps the backoff of its counter, closes the connection, dials again and
  opens the stream with the same coin and number of levels. The updates received before
  the error play no part in the request, which has no start position; every stream the Go
  function opens has the request of the first one.
\<close>

theorem reset_reopens_same_request:
  "(c = DATA_LOSS \<and> autoReconnect \<and> retryCount st + 1 < maxRetries \<longrightarrow>
      snd (on_error coin nLevels autoReconnect st c message)
        = [LogReinitialized message, LogWaiting (backoff baseDelay (retryCount st + 1) div 1000),
           SetTimeout (backoff baseDelay (retryCount st + 1)) coin nLevels autoReconnect])
   \<and> (\<exists>acts acts' more.
         map snd (js_session coin nLevels True 1 (Emits (map UpdateEv us @ [ErrorEv DATA_LOSS m]) # Emits es # envs))
           = (LogConnecting # OpenStream coin nLevels # acts
                @ [LogReinitialized m, LogWaiting (backoff baseDelay 1 div 1000),
                   SetTimeout (backoff baseDelay 1) coin nLevels True])
             # (LogConnecting # OpenStream coin nLevels # acts') # more
         \<and> timers acts = [] \<and> opens acts = [])
   \<and> (rc < maxRetries \<and> is_data_loss err \<and> (if ups = [] then rc else 0) + 1 < maxRetries \<longrightarrow>
        (\<exists>acts more.
           fst (go_retry_loop coin nLevels rc
                  (\<lparr>dial_err = None, open_err = None, recvs = map Recv ups @ RecvErr err # rs\<rparr>
                   # \<lparr>dial_err = None, open_err = None, recvs = rs'\<rparr> # rest))
             = [Dial, hello rc, OpenStream coin nLevels] @ acts
               @ [LogReinitialized (err_message err),
                  LogWaiting (backoff go_baseDelay ((if ups = [] then rc else 0) + 1)),
                  Sleep (backoff go_baseDelay ((if ups = [] then rc else 0) + 1)),
                  CloseConn, Dial, hello ((if ups = [] then rc else 0) + 1), OpenStream coin nLevels]
               @ more
           \<and> opens acts = [] \<and> sleeps acts = []))
   \<and> (\<forall>x \<in> set (opens (fst (go_retry_loop coin nLevels rc attempts))). x = (coin, nLevels))"
proof (intro conjI impI)
  assume "c = DATA_LOSS \<and> autoReconnect \<and> retryCount st + 1 < maxRetries"
  then show "snd (on_error coin nLevels autoReconnect st c message)
        = [LogReinitialized message, LogWaiting (backoff baseDelay (retryCount st + 1) div 1000),
           SetTimeout (backoff baseDelay (retryCount st + 1)) coin nLevels autoReconnect]"
    by (simp add: on_error_def Let_def)
next
  show "\<exists>acts acts' more.
         map snd (js_session coin nLevels True 1 (Emits (map UpdateEv us @ [ErrorEv DATA_LOSS m]) # Emits es # envs))
           = (LogConnecting # OpenStream coin nLevels # acts
                @ [LogReinitialized m, LogWaiting (backoff baseDelay 1 div 1000),
                   SetTimeout (backoff baseDelay 1) coin nLevels True])
             # (LogConnecting # OpenStream coin nLevels # acts') # more
         \<and> timers acts = [] \<and> opens acts = []"
    by (rule js_session_reopens)
next
  assume h: "rc < maxRetries \<and> is_data_loss err \<and> (if ups = [] then rc else 0) + 1 < maxRetries"
  then have lt: "rc < maxRetries" and dl: "is_data_loss err"
    and left: "(if ups = [] then rc else 0) + 1 < maxRetries"
    by blast+
  show "\<exists>acts more.
           fst (go_retry_loop coin nLevels rc
                  (\<lparr>dial_err = None, open_err = None, recvs = map Recv ups @ RecvErr err # rs\<rparr>
                   # \<lparr>dial_err = None, open_err = None, recvs = rs'\<rparr> # rest))
             = [Dial, hello rc, OpenStream coin nLevels] @ acts
               @ [LogReinitialized (err_message err),
                  LogWaiting (backoff go_baseDelay ((if ups = [] then rc else 0) + 1)),
                  Sleep (backoff go_baseDelay ((if ups = [] then rc else 0) + 1)),
                  CloseConn, Dial, hello ((if ups = [] then rc else 0) + 1), OpenStream coin nLevels]
               @ more
           \<and> opens acts = [] \<and> sleeps acts = []"
    by (rule retry_loop_reopens [OF lt dl left])
next
  show "\<forall>x \<in> set (opens (fst (go_retry_loop coin nLevels rc attempts))). x = (coin, nLevels)"
    by (rule retry_loop_opens)
qed

theorem reset_reopens_same_request_witness:
  "snd (on_error ''BTC'' 20 True \<lparr>retryCount = 0, msgCount = 1\<rparr> DATA_LOSS ''reinitialized'')
     = [LogReinitialized ''reinitialized'', LogWaiting 2, SetTimeout 2000 ''BTC'' 20 True]
   \<and> (\<exists>acts more.
         fst (go_retry_loop ''BTC'' 20 0 [go_lost_after_100, go_streaming_150])
           = [Dial, hello 0, OpenStream ''BTC'' 20] @ acts
             @ [LogReinitialized ''reinitialized'', LogWaiting (backoff go_baseDelay 1),
                Sleep (backoff go_baseDelay 1), CloseConn, Dial, hello 1, OpenStream ''BTC'' 20]
             @ more
         \<and> opens acts = [] \<and> sleeps acts = [])
   \<and> map snd (js_session ''BTC'' 20 True 1 [lost_after_100, streaming_150])
       = [[LogConnecting, OpenStream ''BTC'' 20, LogFirstUpdate,
           Display \<lparr>l2_block = 100, l2_time = 0, l2_coin = ''BTC''\<rparr> 1,
           LogReinitialized ''reinitialized'', LogWaiting 2, SetTimeout 2000 ''BTC'' 20 True],
          [LogConnecting, OpenStream ''BTC'' 20, LogFirstUpdate,
           Display \<lparr>l2_block = 150, l2_time = 0, l2_coin = ''BTC''\<rparr> 1]]
   \<and> opens (fst (go_retry_loop ''BTC'' 20 0 [go_lost_after_100, go_streaming_150]))
       = [(''BTC'', 20), (''BTC'', 20)]"
proof -
  have h1: "DATA_LOSS = DATA_LOSS \<and> True \<and> retryCount \<lparr>retryCount = 0, msgCount = 1\<rparr> + 1 < maxRetries"
    by (simp add: maxRetries_def)
  have h3: "(0::nat) < maxRetries \<and> is_data_loss (StatusErr DATA_LOSS ''reinitialized'')
      \<and> (if [\<lparr>l2_block = 100, l2_time = 0, l2_coin = ''BTC''\<rparr>] = [] then 0 else 0) + 1 < maxRetries"
    by (simp add: maxRetries_def)
  note T = reset_reopens_same_request
    [where c = DATA_LOSS and autoReconnect = True and st = "\<lparr>retryCount = 0, msgCount = 1\<rparr>"
       and coin = "''BTC''" and nLevels = 20 and message = "''reinitialized''"
       and rc = 0 and err = "StatusErr DATA_LOSS ''reinitialized''"
       and ups = "[\<lparr>l2_block = 100, l2_time = 0, l2_coin = ''BTC''\<rparr>]" and rs = "[]"
       and rs' = "[Recv \<lparr>l2_block = 150, l2_time = 0, l2_coin = ''BTC''\<rparr>]" and rest = "[]"
       and attempts = "[go_lost_after_100, go_streaming_150]"]
  from T h1 have a0:
    "snd (on_error ''BTC'' 20 True \<lparr>retryCount = 0, msgCount = 1\<rparr> DATA_LOSS ''reinitialized'')
       = [LogReinitialized ''reinitialized'',
          LogWaiting (backoff baseDelay (retryCount \<lparr>retryCount = 0, msgCount = 1\<rparr> + 1) div 1000),
          SetTimeout (backoff baseDelay (retryCount \<lparr>retryCount = 0, msgCount = 1\<rparr> + 1)) ''BTC'' 20 True]"
    by blast
  then have a: "snd (on_error ''BTC'' 20 True \<lparr>retryCount = 0, msgCount = 1\<rparr> DATA_LOSS ''reinitialized'')
     = [LogReinitialized ''reinitialized'', LogWaiting 2, SetTimeout 2000 ''BTC'' 20 True]"
    by (simp add: backoff_def baseDelay_def)
  from T h3 have b0: "\<exists>acts more.
           fst (go_retry_loop ''BTC'' 20 0
                  (\<lparr>dial_err = None, open_err = None,
                     recvs = map Recv [\<lparr>l2_block = 100, l2_time = 0, l2_coin = ''BTC''\<rparr>]
                       @ RecvErr (StatusErr DATA_LOSS ''reinitialized'') # []\<rparr>
                   # \<lparr>dial_err = None, open_err = None,
                       recvs = [Recv \<lparr>l2_block = 150, l2_time = 0, l2_coin = ''BTC''\<rparr>]\<rparr> # []))
             = [Dial, hello 0, OpenStream ''BTC'' 20] @ acts
               @ [LogReinitialized (err_message (StatusErr DATA_LOSS ''reinitialized'')),
                  LogWaiting (backoff go_baseDelay ((if [\<lparr>l2_block = 100, l2_time = 0, l2_coin = ''BTC''\<rparr>] = [] then 0 else 0) + 1)),
                  Sleep (backoff go_baseDelay ((if [\<lparr>l2_block = 100, l2_time = 0, l2_coin = ''BTC''\<rparr>] = [] then 0 else 0) + 1)),
                  CloseConn, Dial,
                  hello ((if [\<lparr>l2_block = 100, l2_time = 0, l2_coin = ''BTC''\<rparr>] = [] then 0 else 0) + 1),
                  OpenStream ''BTC'' 20]
               @ more
           \<and> opens acts = [] \<and> sleeps acts = []"
    by blast
  then have b: "\<exists>acts more.
         fst (go_retry_loop ''BTC'' 20 0 [go_lost_after_100, go_streaming_150])
           = [Dial, hello 0, OpenStream ''BTC'' 20] @ acts
             @ [LogReinitialized ''reinitialized'', LogWaiting (backoff go_baseDelay 1),
                Sleep (backoff go_baseDelay 1), CloseConn, Dial, hello 1, OpenStream ''BTC'' 20]
             @ more
         \<and> opens acts = [] \<and> sleeps acts = []"
    by (simp add: go_lost_after_100_def go_streaming_150_def del: go_retry_loop.simps)
  have c: "map snd (js_session ''BTC'' 20 True 1 [lost_after_100, streaming_150])
       = [[LogConnecting, OpenStream ''BTC'' 20, LogFirstUpdate,
           Display \<lparr>l2_block = 100, l2_time = 0, l2_coin = ''BTC''\<rparr> 1,
           LogReinitialized ''reinitialized'', LogWaiting 2, SetTimeout 2000 ''BTC'' 20 True],
          [LogConnecting, OpenStream ''BTC'' 20, LogFirstUpdate,
           Display \<lparr>l2_block = 150, l2_time = 0, l2_coin = ''BTC''\<rparr> 1]]"
    by (simp add: streamL2Orderbook_def lost_after_100_def streaming_150_def on_error_def on_update_def
        maxRetries_def backoff_def baseDelay_def Let_def)
  have d: "opens (fst (go_retry_loop ''BTC'' 20 0 [go_lost_after_100, go_streaming_150]))
       = [(''BTC'', 20), (''BTC'', 20)]"
    by (simp add: go_lost_after_100_def go_streaming_150_def maxRetries_def hello_def)
  show ?thesis by (intro conjI; fact)
qed

text \<open>With block 100 confirmed and a reset whose minimum available position is 150, the
  design text asks for a gap notification from 101 to 150 and a resume at 150. The code
  shows two subscribe intents without start position, and no notification.\<close>

theorem reset_gap_counterexample:
  "spec_resume_after_reset 100 150 = [GapDetected 101 150, SubscribeIntent (Some 150)]
   \<and> observe (concat (map snd (js_session ''BTC'' 20 True 1 [lost_after_100, lost])))
       = [SubscribeIntent None, SubscribeIntent None]
   \<and> observe (fst (go_retry_loop ''BTC'' 20 0 [go_lost_after_100, go_lost]))
       = [SubscribeIntent None, SubscribeIntent None]
   \<and> GapDetected 101 150 \<notin> set (observe (concat (map snd (js_session ''BTC'' 20 True 1 [lost_after_100, lost]))))"
  by (simp add: spec_resume_after_reset_def streamL2Orderbook_def lost_def lost_after_100_def
      on_error_def on_update_def maxRetries_def backoff_def baseDelay_def Let_def
      go_lost_def go_lost_after_100_def hello_def)

text \<open>
  C7 (as amended). Only a \<open>DATA_LOSS\<close> status received on the stream is recoverable and
  enters the backoff loop: with retries left the Go function sleeps the backoff, dials
  again and opens the stream again, and the JavaScript handler sets the timer whose call
  opens the stream again; a \<open>DATA_LOSS\<close> received on the stream is never returned as an
  error. A failure to connect or to open the stream, of any kind, ends the Go function
  at once with that error, and so does any other error received on the stream, without a
  wait. The JavaScript handler only logs an error that is not \<open>DATA_LOSS\<close> (or any
  error when auto-reconnect is off), sets no timer, and the session ends. The code has no
  liveness timeout.
\<close>

theorem only_data_loss_is_recoverable:
  "(rc < maxRetries \<and> dial_err a = Some e \<longrightarrow>
      go_retry_loop coin nLevels rc (a # rest) = ([Dial], ReturnErr ''failed to connect'' e))
   \<and> (rc < maxRetries \<and> dial_err a' = None \<and> open_err a' = Some e' \<longrightarrow>
      go_retry_loop coin nLevels rc (a' # rest)
        = ([Dial, hello rc, OpenStream coin nLevels, CloseConn], ReturnErr ''failed to start stream'' e'))
   \<and> (\<not> is_data_loss err \<longrightarrow>
      go_recv_loop rc mc (RecvErr err # rs) = ([CloseConn], rc, Returned (ReturnErr ''stream error'' err)))
   \<and> (is_data_loss err' \<longrightarrow>
      (\<exists>acts out. go_recv_loop rc mc (RecvErr err' # rs) = (acts, rc + 1, out)
         \<and> (out = Broke True \<or> out = Returned ReturnNil)))
   \<and> (go_retry_loop coin nLevels rc attempts = (trace, ReturnErr w e'') \<longrightarrow>
      w = ''failed to connect'' \<or> w = ''failed to start stream'' \<or> (w = ''stream error'' \<and> \<not> is_data_loss e''))
   \<and> (\<not> (c = DATA_LOSS \<and> autoReconnect) \<longrightarrow>
      on_error coin nLevels autoReconnect st c message = (st, [LogGrpcError c message]))
   \<and> (rc < maxRetries \<and> is_data_loss err' \<and> (if ups = [] then rc else 0) + 1 < maxRetries \<longrightarrow>
        (\<exists>acts more.
           fst (go_retry_loop coin nLevels rc
                  (\<lparr>dial_err = None, open_err = None, recvs = map Recv ups @ RecvErr err' # rs\<rparr>
                   # \<lparr>dial_err = None, open_err = None, recvs = rs'\<rparr> # rest))
             = [Dial, hello rc, OpenStream coin nLevels] @ acts
               @ [LogReinitialized (err_message err'),
                  LogWaiting (backoff go_baseDelay ((if ups = [] then rc else 0) + 1)),
                  Sleep (backoff go_baseDelay ((if ups = [] then rc else 0) + 1)),
                  CloseConn, Dial, hello ((if ups = [] then rc else 0) + 1), OpenStream coin nLevels]
               @ more
           \<and> opens acts = [] \<and> sleeps acts = []))
   \<and> (\<exists>acts acts' more.
         map snd (js_session coin nLevels True 1 (Emits (map UpdateEv us @ [ErrorEv DATA_LOSS m]) # Emits es # envs))
           = (LogConnecting # OpenStream coin nLevels # acts
                @ [LogReinitialized m, LogWaiting (backoff baseDelay 1 div 1000),
                   SetTimeout (backoff baseDelay 1) coin nLevels True])
             # (LogConnecting # OpenStream coin nLevels # acts') # more
         \<and> timers acts = [] \<and> opens acts = [])
   \<and> (rc < maxRetries \<and> \<not> is_data_loss err \<longrightarrow>
        (\<exists>acts.
           go_retry_loop coin nLevels rc
             (\<lparr>dial_err = None, open_err = None, recvs = map Recv ups @ RecvErr err # rs\<rparr> # rest)
             = ([Dial, hello rc, OpenStream coin nLevels] @ acts @ [CloseConn], ReturnErr ''stream error'' err)
           \<and> opens acts = [] \<and> sleeps acts = []))
   \<and> (\<not> (c = DATA_LOSS \<and> autoReconnect) \<longrightarrow>
        (\<exists>acts. map snd (js_session coin nLevels autoReconnect 1 (Emits (map UpdateEv us @ [ErrorEv c message]) # envs))
            = [LogConnecting # OpenStream coin nLevels # acts @ [LogGrpcError c message]]
          \<and> timers acts = [] \<and> opens acts = []))"
proof (intro conjI impI)
  assume "rc < maxRetries \<and> dial_err a = Some e"
  then show "go_retry_loop coin nLevels rc (a # rest) = ([Dial], ReturnErr ''failed to connect'' e)"
    by simp
next
  assume "rc < maxRetries \<and> dial_err a' = None \<and> open_err a' = Some e'"
  then show "go_retry_loop coin nLevels rc (a' # rest)
        = ([Dial, hello rc, OpenStream coin nLevels, CloseConn], ReturnErr ''failed to start stream'' e')"
    by simp
next
  assume "\<not> is_data_loss err"
  then show "go_recv_loop rc mc (RecvErr err # rs) = ([CloseConn], rc, Returned (ReturnErr ''stream error'' err))"
    by simp
next
  assume "is_data_loss err'"
  then show "\<exists>acts out. go_recv_loop rc mc (RecvErr err' # rs) = (acts, rc + 1, out)
         \<and> (out = Broke True \<or> out = Returned ReturnNil)"
    by simp
next
  assume "go_retry_loop coin nLevels rc attempts = (trace, ReturnErr w e'')"
  then show "w = ''failed to connect'' \<or> w = ''failed to start stream'' \<or> (w = ''stream error'' \<and> \<not> is_data_loss e'')"
    by (rule retry_loop_error)
next
  assume "\<not> (c = DATA_LOSS \<and> autoReconnect)"
  then show "on_error coin nLevels autoReconnect st c message = (st, [LogGrpcError c message])"
    by (simp add: on_error_def)
next
  assume h: "rc < maxRetries \<and> is_data_loss err' \<and> (if ups = [] then rc else 0) + 1 < maxRetries"
  then have lt: "rc < maxRetries" and dl: "is_data_loss err'"
    and left: "(if ups = [] then rc else 0) + 1 < maxRetries"
    by blast+
  show "\<exists>acts more.
           fst (go_retry_loop coin nLevels rc
                  (\<lparr>dial_err = None, open_err = None, recvs = map Recv ups @ RecvErr err' # rs\<rparr>
                   # \<lparr>dial_err = None, open_err = None, recvs = rs'\<rparr> # rest))
             = [Dial, hello rc, OpenStream coin nLevels] @ acts
               @ [LogReinitialized (err_message err'),
                  LogWaiting (backoff go_baseDelay ((if ups = [] then rc else 0) + 1)),
                  Sleep (backoff go_baseDelay ((if ups = [] then rc else 0) + 1)),
                  CloseConn, Dial, hello ((if ups = [] then rc else 0) + 1), OpenStream coin nLevels]
               @ more
           \<and> opens acts = [] \<and> sleeps acts = []"
    by (rule retry_loop_reopens [OF lt dl left])
next
  show "\<exists>acts acts' more.
         map snd (js_session coin nLevels True 1 (Emits (map UpdateEv us @ [ErrorEv DATA_LOSS m]) # Emits es # envs))
           = (LogConnecting # OpenStream coin nLevels # acts
                @ [LogReinitialized m, LogWaiting (backoff baseDelay 1 div 1000),
                   SetTimeout (backoff baseDelay 1) coin nLevels True])
             # (LogConnecting # OpenStream coin nLevels # acts') # more
         \<and> timers acts = [] \<and> opens acts = []"
    by (rule js_session_reopens)
next
  assume "rc < maxRetries \<and> \<not> is_data_loss err"
  then have lt: "rc < maxRetries" and nd: "\<not> is_data_loss err" by blast+
  show "\<exists>acts.
           go_retry_loop coin nLevels rc
             (\<lparr>dial_err = None, open_err = None, recvs = map Recv ups @ RecvErr err # rs\<rparr> # rest)
             = ([Dial, hello rc, OpenStream coin nLevels] @ acts @ [CloseConn], ReturnErr ''stream error'' err)
           \<and> opens acts = [] \<and> sleeps acts = []"
    by (rule retry_loop_other_error [OF lt nd])
next
  assume h: "\<not> (c = DATA_LOSS \<and> autoReconnect)"
  show "\<exists>acts. map snd (js_session coin nLevels autoReconnect 1 (Emits (map UpdateEv us @ [ErrorEv c message]) # envs))
            = [LogConnecting # OpenStream coin nLevels # acts @ [LogGrpcError c message]]
          \<and> timers acts = [] \<and> opens acts = []"
    by (rule js_session_other_error [OF h])
qed

theorem only_data_loss_is_recoverable_witness:
  "go_retry_loop ''BTC'' 20 0 (go_unreachable # [go_lost])
     = ([Dial], ReturnErr ''failed to connect'' (StatusErr UNAVAILABLE ''connection refused''))
   \<and> go_retry_loop ''BTC'' 20 0 (go_open_refused # [go_lost])
     = ([Dial, hello 0, OpenStream ''BTC'' 20, CloseConn],
        ReturnErr ''failed to start stream'' (StatusErr UNAVAILABLE ''connection refused''))
   \<and> go_recv_loop 0 0 (RecvErr (StatusErr UNAVAILABLE ''down'') # [])
       = ([CloseConn], 0, Returned (ReturnErr ''stream error'' (StatusErr UNAVAILABLE ''down'')))
   \<and> (\<exists>acts out. go_recv_loop 0 0 (RecvErr (StatusErr DATA_LOSS ''reinitialized'') # []) = (acts, 0 + 1, out)
         \<and> (out = Broke True \<or> out = Returned ReturnNil))
   \<and> \<not> is_data_loss (StatusErr UNAVAILABLE ''connection refused'')
   \<and> on_error ''BTC'' 20 True \<lparr>retryCount = 0, msgCount = 0\<rparr> UNAVAILABLE ''down''
       = (\<lparr>retryCount = 0, msgCount = 0\<rparr>, [LogGrpcError UNAVAILABLE ''down''])
   \<and> (\<exists>acts more.
         fst (go_retry_loop ''BTC'' 20 0 [go_lost_after_100, go_streaming_150])
           = [Dial, hello 0, OpenStream ''BTC'' 20] @ acts
             @ [LogReinitialized ''reinitialized'', LogWaiting (backoff go_baseDelay 1),
                Sleep (backoff go_baseDelay 1), CloseConn, Dial, hello 1, OpenStream ''BTC'' 20]
             @ more
         \<and> opens acts = [] \<and> sleeps acts = [])
   \<and> (\<exists>acts. go_retry_loop ''BTC'' 20 0 [go_refused, go_streaming_150]
          = ([Dial, hello 0, OpenStream ''BTC'' 20] @ acts @ [CloseConn],
             ReturnErr ''stream error'' (StatusErr UNAVAILABLE ''connection refused''))
        \<and> opens acts = [] \<and> sleeps acts = [])
   \<and> (\<exists>acts. map snd (js_session ''BTC'' 20 True 1 [Emits [ErrorEv UNAVAILABLE ''down''], streaming_150])
          = [LogConnecting # OpenStream ''BTC'' 20 # acts @ [LogGrpcError UNAVAILABLE ''down'']]
        \<and> timers acts = [] \<and> opens acts = [])"
proof -
  have h1: "(0::nat) < maxRetries \<and> dial_err go_unreachable = Some (StatusErr UNAVAILABLE ''connection refused'')"
    by (simp add: maxRetries_def go_unreachable_def)
  have h2: "(0::nat) < maxRetries \<and> dial_err go_open_refused = None
      \<and> open_err go_open_refused = Some (StatusErr UNAVAILABLE ''connection refused'')"
    by (simp add: maxRetries_def go_open_refused_def)
  have h3: "\<not> is_data_loss (StatusErr UNAVAILABLE ''down'')" by simp
  have h4: "is_data_loss (StatusErr DATA_LOSS ''reinitialized'')" by simp
  have h5: "go_retry_loop ''BTC'' 20 0 [go_refused, go_streaming_150]
      = ([Dial, hello 0, OpenStream ''BTC'' 20, CloseConn],
         ReturnErr ''stream error'' (StatusErr UNAVAILABLE ''connection refused''))"
    by (simp add: go_refused_def maxRetries_def)
  have h6: "\<not> (UNAVAILABLE = DATA_LOSS \<and> True)" by simp
  have h7: "(0::nat) < maxRetries \<and> is_data_loss (StatusErr DATA_LOSS ''reinitialized'')
      \<and> (if [\<lparr>l2_block = 100, l2_time = 0, l2_coin = ''BTC''\<rparr>] = [] then 0 else 0) + 1 < maxRetries"
    by (simp add: maxRetries_def)
  have h9: "(0::nat) < maxRetries \<and> \<not> is_data_loss (StatusErr UNAVAILABLE ''connection refused'')"
    by (simp add: maxRetries_def)
  note T1 = only_data_loss_is_recoverable
    [where rc = 0 and a = go_unreachable and e = "StatusErr UNAVAILABLE ''connection refused''"
       and coin = "''BTC''" and nLevels = 20 and rest = "[go_lost]"
       and a' = go_open_refused and e' = "StatusErr UNAVAILABLE ''connection refused''"
       and err = "StatusErr UNAVAILABLE ''down''" and mc = 0 and rs = "[]"
       and err' = "StatusErr DATA_LOSS ''reinitialized''"
       and c = UNAVAILABLE and autoReconnect = True and st = "\<lparr>retryCount = 0, msgCount = 0\<rparr>"
       and message = "''down''" and us = "[]" and envs = "[streaming_150]"]
  note T2 = only_data_loss_is_recoverable
    [where rc = 0 and coin = "''BTC''" and nLevels = 20
       and attempts = "[go_refused, go_streaming_150]"
       and trace = "[Dial, hello 0, OpenStream ''BTC'' 20, CloseConn]" and w = "''stream error''"
       and e'' = "StatusErr UNAVAILABLE ''connection refused''"
       and err' = "StatusErr DATA_LOSS ''reinitialized''"
       and ups = "[\<lparr>l2_block = 100, l2_time = 0, l2_coin = ''BTC''\<rparr>]" and rs = "[]"
       and rs' = "[Recv \<lparr>l2_block = 150, l2_time = 0, l2_coin = ''BTC''\<rparr>]" and rest = "[]"]
  note T3 = only_data_loss_is_recoverable
    [where rc = 0 and coin = "''BTC''" and nLevels = 20
       and err = "StatusErr UNAVAILABLE ''connection refused''" and ups = "[]" and rs = "[]"
       and rest = "[go_streaming_150]"]
  from T1 h1 have c1: "go_retry_loop ''BTC'' 20 0 (go_unreachable # [go_lost])
     = ([Dial], ReturnErr ''failed to connect'' (StatusErr UNAVAILABLE ''connection refused''))"
    by blast
  from T1 h2 have c2: "go_retry_loop ''BTC'' 20 0 (go_open_refused # [go_lost])
     = ([Dial, hello 0, OpenStream ''BTC'' 20, CloseConn],
        ReturnErr ''failed to start stream'' (StatusErr UNAVAILABLE ''connection refused''))"
    by blast
  from T1 h3 have c3: "go_recv_loop 0 0 (RecvErr (StatusErr UNAVAILABLE ''down'') # [])
       = ([CloseConn], 0, Returned (ReturnErr ''stream error'' (StatusErr UNAVAILABLE ''down'')))"
    by blast
  from T1 h4 have c4: "\<exists>acts out. go_recv_loop 0 0 (RecvErr (StatusErr DATA_LOSS ''reinitialized'') # []) = (acts, 0 + 1, out)
         \<and> (out = Broke True \<or> out = Returned ReturnNil)"
    by blast
  from T2 h5 have c5: "\<not> is_data_loss (StatusErr UNAVAILABLE ''connection refused'')"
    by simp
  from T1 h6 have c6: "on_error ''BTC'' 20 True \<lparr>retryCount = 0, msgCount = 0\<rparr> UNAVAILABLE ''down''
       = (\<lparr>retryCount = 0, msgCount = 0\<rparr>, [LogGrpcError UNAVAILABLE ''down''])"
    by blast
  from T2 h7 have c70: "\<exists>acts more.
           fst (go_retry_loop ''BTC'' 20 0
                  (\<lparr>dial_err = None, open_err = None,
                     recvs = map Recv [\<lparr>l2_block = 100, l2_time = 0, l2_coin = ''BTC''\<rparr>]
                       @ RecvErr (StatusErr DATA_LOSS ''reinitialized'') # []\<rparr>
                   # \<lparr>dial_err = None, open_err = None,
                       recvs = [Recv \<lparr>l2_block = 150, l2_time = 0, l2_coin = ''BTC''\<rparr>]\<rparr> # []))
             = [Dial, hello 0, OpenStream ''BTC'' 20] @ acts
               @ [LogReinitialized (err_message (StatusErr DATA_LOSS ''reinitialized'')),
                  LogWaiting (backoff go_baseDelay ((if [\<lparr>l2_block = 100, l2_time = 0, l2_coin = ''BTC''\<rparr>] = [] then 0 else 0) + 1)),
                  Sleep (backoff go_baseDelay ((if [\<lparr>l2_block = 100, l2_time = 0, l2_coin = ''BTC''\<rparr>] = [] then 0 else 0) + 1)),
                  CloseConn, Dial,
                  hello ((if [\<lparr>l2_block = 100, l2_time = 0, l2_coin = ''BTC''\<rparr>] = [] then 0 else 0) + 1),
                  OpenStream ''BTC'' 20]
               @ more
           \<and> opens acts = [] \<and> sleeps acts = []"
    by blast
  then have c7: "\<exists>acts more.
         fst (go_retry_loop ''BTC'' 20 0 [go_lost_after_100, go_streaming_150])
           = [Dial, hello 0, OpenStream ''BTC'' 20] @ acts
             @ [LogReinitialized ''reinitialized'', LogWaiting (backoff go_baseDelay 1),
                Sleep (backoff go_baseDelay 1), CloseConn, Dial, hello 1, OpenStream ''BTC'' 20]
             @ more
         \<and> opens acts = [] \<and> sleeps acts = []"
    by (simp add: go_lost_after_100_def go_streaming_150_def del: go_retry_loop.simps)
  from T3 h9 have c90: "\<exists>acts.
           go_retry_loop ''BTC'' 20 0
             (\<lparr>dial_err = None, open_err = None,
                recvs = map Recv [] @ RecvErr (StatusErr UNAVAILABLE ''connection refused'') # []\<rparr>
              # [go_streaming_150])
             = ([Dial, hello 0, OpenStream ''BTC'' 20] @ acts @ [CloseConn],
                ReturnErr ''stream error'' (StatusErr UNAVAILABLE ''connection refused''))
           \<and> opens acts = [] \<and> sleeps acts = []"
    by blast
  then have c9: "\<exists>acts. go_retry_loop ''BTC'' 20 0 [go_refused, go_streaming_150]
          = ([Dial, hello 0, OpenStream ''BTC'' 20] @ acts @ [CloseConn],
             ReturnErr ''stream error'' (StatusErr UNAVAILABLE ''connection refused''))
        \<and> opens acts = [] \<and> sleeps acts = []"
    by (simp add: go_refused_def del: go_retry_loop.simps)
  from T1 h6 have c100: "\<exists>acts. map snd (js_session ''BTC'' 20 True 1
            (Emits (map UpdateEv [] @ [ErrorEv UNAVAILABLE ''down'']) # [streaming_150]))
          = [LogConnecting # OpenStream ''BTC'' 20 # acts @ [LogGrpcError UNAVAILABLE ''down'']]
        \<and> timers acts = [] \<and> opens acts = []"
    by blast
  then have c10: "\<exists>acts. map snd (js_session ''BTC'' 20 True 1 [Emits [ErrorEv UNAVAILABLE ''down''], streaming_150])
          = [LogConnecting # OpenStream ''BTC'' 20 # acts @ [LogGrpcError UNAVAILABLE ''down'']]
        \<and> timers acts = [] \<and> opens acts = []"
    by (simp del: js_session.simps)
  show ?thesis by (intro conjI; fact)
qed

text \<open>A transport failure that is not an authentication fault (the server is
  unavailable when the stream is opened, or at the first \<^verbatim>\<open>Recv\<close>) ends the Go function
  with the error: no wait, no second attempt, although a stream that would deliver
  updates is there to be opened. The JavaScript session logs the error and ends as well.\<close>

theorem transport_failure_counterexample:
  "go_streamL2Orderbook ''BTC'' 20 [go_open_refused, go_streaming_150]
     = ([Dial, LogConnecting, OpenStream ''BTC'' 20, CloseConn],
        ReturnErr ''failed to start stream'' (StatusErr UNAVAILABLE ''connection refused''))
   \<and> go_streamL2Orderbook ''BTC'' 20 [go_refused, go_streaming_150]
     = ([Dial, LogConnecting, OpenStream ''BTC'' 20, CloseConn],
        ReturnErr ''stream error'' (StatusErr UNAVAILABLE ''connection refused''))
   \<and> sleeps (fst (go_streamL2Orderbook ''BTC'' 20 [go_open_refused, go_streaming_150])) = []
   \<and> sleeps (fst (go_streamL2Orderbook ''BTC'' 20 [go_refused, go_streaming_150])) = []
   \<and> map snd (js_session ''BTC'' 20 True 1 [Emits [ErrorEv UNAVAILABLE ''connection refused''], streaming_150])
       = [[LogConnecting, OpenStream ''BTC'' 20, LogGrpcError UNAVAILABLE ''connection refused'']]"
  by (simp add: go_streamL2Orderbook_def go_open_refused_def go_refused_def maxRetries_def hello_def
      streamL2Orderbook_def on_error_def Let_def)

section \<open>Subscription requests: theorems\<close>

lemma subscribes_append: "subscribes (xs @ ys) = subscribes xs @ subscribes ys"
  by (induction xs rule: subscribes.induct) simp_all

lemma subscribes_printed: "subscribes (map Printed ps) = []"
  by (induction ps) simp_all

lemma subscribes_reactions: "subscribes (concat (map (sd_react zd utf8 parse) events)) = []"
proof (induction events)
  case Nil
  show ?case by simp
next
  case (Cons e es)
  then show ?case by (cases e) (simp_all add: subscribes_append subscribes_printed)
qed

lemma subscribes_filter_reactions: "subscribes (concat (map (filter_react zd utf8 parse) events)) = []"
proof (induction events)
  case Nil
  show ?case by simp
next
  case (Cons e es)
  then show ?case by (cases e) (simp_all add: subscribes_append subscribes_printed)
qed

lemma go_sends_append: "go_sends (xs @ ys) = go_sends xs @ go_sends ys"
  by (induction xs rule: go_sends.induct) simp_all

lemma go_sends_printed: "go_sends (map GoPrinted ps) = []"
  by (induction ps) simp_all

lemma go_filter_loop_sends: "go_sends (fst (go_filter_loop zd parse rs)) = []"
  by (induction zd parse rs rule: go_filter_loop.induct)
     (simp_all add: split_beta go_sends_append go_sends_printed)

lemma go_filter_loop_closes:
  "go_sends (case r of GoBlocked \<Rightarrow> [] | GoReturn x \<Rightarrow> [GoClose]) = []"
  by (cases r) simp_all

text \<open>The Go function sends the request once, after the stream was opened, and nothing
  else; without a stream nothing is sent.\<close>

lemma go_streamWithFilter_sends:
  "go_sends (fst (go_streamWithFilter zd parse env))
     = (if f_dial_err env = None \<and> f_open_err env = None \<and> f_send_err env = None
        then [filter_subscribe] else [])"
  by (simp add: go_streamWithFilter_def split_beta go_sends_append go_filter_loop_sends
      go_filter_loop_closes split: option.splits)

text \<open>An error from \<^verbatim>\<open>Recv\<close>, after any number of responses, is returned to the
  caller, and what the stream would deliver afterwards is never read.\<close>

lemma go_filter_loop_error:
  "snd (go_filter_loop zd parse (map GoResponse ds @ GoRecvErr e # later)) = GoReturn (Some e)"
proof (induction ds)
  case Nil
  show ?case by simp
next
  case (Cons d ds)
  then show ?case by (cases d) (simp_all add: split_beta)
qed

lemma go_filter_loop_prefix:
  "fst (go_filter_loop zd parse (map GoResponse ds @ GoRecvErr e # later))
     = fst (go_filter_loop zd parse (map GoResponse ds @ [GoRecvErr e]))"
proof (induction ds)
  case Nil
  show ?case by simp
next
  case (Cons d ds)
  then show ?case by (cases d) (simp_all add: split_beta)
qed

text \<open>The resume of the order book stream in Go, from the start of the function: after
  any number of updates and a \<open>DATA_LOSS\<close> the stream is opened again with the coin and
  the number of levels.\<close>

lemma go_resume_request:
  "\<exists>acts more.
     fst (go_streamL2Orderbook coin nLevels
            (\<lparr>dial_err = None, open_err = None, recvs = map Recv ups @ RecvErr (StatusErr DATA_LOSS m) # rs\<rparr>
             # \<lparr>dial_err = None, open_err = None, recvs = rs'\<rparr> # rest))
       = [Dial, LogConnecting, OpenStream coin nLevels] @ acts
         @ [LogReinitialized m, LogWaiting (backoff go_baseDelay 1), Sleep (backoff go_baseDelay 1),
            CloseConn, Dial, LogReconnecting 2 maxRetries, OpenStream coin nLevels]
         @ more
     \<and> opens acts = [] \<and> sleeps acts = []"
proof -
  have lt: "(0::nat) < maxRetries" by (simp add: maxRetries_def)
  have dl: "is_data_loss (StatusErr DATA_LOSS m)" by simp
  have left: "(if ups = [] then 0 else 0) + 1 < maxRetries" by (simp add: maxRetries_def)
  from retry_loop_reopens [OF lt dl left, of coin nLevels rs rs' rest]
  show ?thesis unfolding go_streamL2Orderbook_def
    by (simp add: hello_def numeral_2_eq_2 del: go_retry_loop.simps)
qed

text \<open>
  C5 (as amended). The code keeps no cursor. A run of \<open>streamData\<close>, and a run of
  \<open>streamWithFilter\<close> in JavaScript and in Go, sends one subscribe request, when the
  stream is opened (in Go: none when the connection, the stream or the send fails), and
  its start position is 0. After an error nothing is sent again: the JavaScript handlers
  log the error, the Go function returns it. The one resume of the code, that of the
  order book stream after \<open>DATA_LOSS\<close>, opens the stream again with the coin and the
  number of levels, whatever updates were received: the request has no start position.
\<close>

theorem subscribe_once_without_cursor:
  "subscribes (streamData zd utf8 parse streamType fs events) = [subscribeRequest streamType fs]
   \<and> start_block (subscribeRequest streamType fs) = 0
   \<and> streamData zd utf8 parse streamType fs (events @ [SdError msg])
       = streamData zd utf8 parse streamType fs events @ [LogError msg]
   \<and> subscribes (streamWithFilter zd utf8 parse events) = [filter_subscribe]
   \<and> start_block filter_subscribe = 0
   \<and> streamWithFilter zd utf8 parse (events @ [SdError msg])
       = streamWithFilter zd utf8 parse events @ [LogError msg]
   \<and> go_sends (fst (go_streamWithFilter zd gparse env))
       = (if f_dial_err env = None \<and> f_open_err env = None \<and> f_send_err env = None
          then [filter_subscribe] else [])
   \<and> go_streamWithFilter zd gparse
        \<lparr>f_dial_err = None, f_open_err = None, f_send_err = None,
          f_recvs = map GoResponse ds @ GoRecvErr e # later\<rparr>
       = ([GoDial, GoOpenStream, GoSend filter_subscribe, GoLogStreaming]
            @ fst (go_filter_loop zd gparse (map GoResponse ds @ [GoRecvErr e])) @ [GoClose],
          GoReturn (Some e))
   \<and> (\<exists>acts more.
         fst (go_streamL2Orderbook coin nLevels
                (\<lparr>dial_err = None, open_err = None, recvs = map Recv ups @ RecvErr (StatusErr DATA_LOSS m) # rs\<rparr>
                 # \<lparr>dial_err = None, open_err = None, recvs = rs'\<rparr> # rest))
           = [Dial, LogConnecting, OpenStream coin nLevels] @ acts
             @ [LogReinitialized m, LogWaiting (backoff go_baseDelay 1), Sleep (backoff go_baseDelay 1),
                CloseConn, Dial, LogReconnecting 2 maxRetries, OpenStream coin nLevels]
             @ more
         \<and> opens acts = [] \<and> sleeps acts = [])
   \<and> (\<exists>acts acts' more.
         map snd (js_session coin nLevels True 1 (Emits (map UpdateEv us @ [ErrorEv DATA_LOSS m]) # Emits es # envs))
           = (LogConnecting # OpenStream coin nLevels # acts
                @ [LogReinitialized m, LogWaiting (backoff baseDelay 1 div 1000),
                   SetTimeout (backoff baseDelay 1) coin nLevels True])
             # (LogConnecting # OpenStream coin nLevels # acts') # more
         \<and> timers acts = [] \<and> opens acts = [])"
proof (intro conjI)
  show "subscribes (streamData zd utf8 parse streamType fs events) = [subscribeRequest streamType fs]"
    by (simp add: streamData_def subscribes_append subscribes_reactions)
  show "start_block (subscribeRequest streamType fs) = 0"
    by (simp add: subscribeRequest_def)
  show "streamData zd utf8 parse streamType fs (events @ [SdError msg])
       = streamData zd utf8 parse streamType fs events @ [LogError msg]"
    by (simp add: streamData_def)
  show "subscribes (streamWithFilter zd utf8 parse events) = [filter_subscribe]"
    by (simp add: streamWithFilter_def subscribes_filter_reactions)
  show "start_block filter_subscribe = 0"
    by (simp add: filter_subscribe_def)
  show "streamWithFilter zd utf8 parse (events @ [SdError msg])
       = streamWithFilter zd utf8 parse events @ [LogError msg]"
    by (simp add: streamWithFilter_def)
  show "go_sends (fst (go_streamWithFilter zd gparse env))
       = (if f_dial_err env = None \<and> f_open_err env = None \<and> f_send_err env = None
          then [filter_subscribe] else [])"
    by (rule go_streamWithFilter_sends)
  show "go_streamWithFilter zd gparse
        \<lparr>f_dial_err = None, f_open_err = None, f_send_err = None,
          f_recvs = map GoResponse ds @ GoRecvErr e # later\<rparr>
       = ([GoDial, GoOpenStream, GoSend filter_subscribe, GoLogStreaming]
            @ fst (go_filter_loop zd gparse (map GoResponse ds @ [GoRecvErr e])) @ [GoClose],
          GoReturn (Some e))"
    using go_filter_loop_error [of zd gparse ds e later] go_filter_loop_prefix [of zd gparse ds e later]
    by (simp add: go_streamWithFilter_def split_beta)
  show "\<exists>acts more.
         fst (go_streamL2Orderbook coin nLevels
                (\<lparr>dial_err = None, open_err = None, recvs = map Recv ups @ RecvErr (StatusErr DATA_LOSS m) # rs\<rparr>
                 # \<lparr>dial_err = None, open_err = None, recvs = rs'\<rparr> # rest))
           = [Dial, LogConnecting, OpenStream coin nLevels] @ acts
             @ [LogReinitialized m, LogWaiting (backoff go_baseDelay 1), Sleep (backoff go_baseDelay 1),
                CloseConn, Dial, LogReconnecting 2 maxRetries, OpenStream coin nLevels]
             @ more
         \<and> opens acts = [] \<and> sleeps acts = []"
    by (rule go_resume_request)
  show "\<exists>acts acts' more.
         map snd (js_session coin nLevels True 1 (Emits (map UpdateEv us @ [ErrorEv DATA_LOSS m]) # Emits es # envs))
           = (LogConnecting # OpenStream coin nLevels # acts
                @ [LogReinitialized m, LogWaiting (backoff baseDelay 1 div 1000),
                   SetTimeout (backoff baseDelay 1) coin nLevels True])
             # (LogConnecting # OpenStream coin nLevels # acts') # more
         \<and> timers acts = [] \<and> opens acts = []"
    by (rule js_session_reopens)
qed

theorem subscribe_once_without_cursor_witness:
  "subscribes (streamData sample_zd ascii sample_json ''TRADES'' []
       [Response (Data \<lparr>block_number = 100, timestamp = 0, payload = Buffer [0x7B, 0x7D]\<rparr>), SdError ''reset''])
     = [\<lparr>stream_type = ''TRADES'', start_block = 0, filters = None, filter_name = None\<rparr>]
   \<and> streamData sample_zd ascii sample_json ''TRADES'' []
       [Response (Data \<lparr>block_number = 100, timestamp = 0, payload = Buffer [0x7B, 0x7D]\<rparr>), SdError ''reset'']
     = [WriteSubscribe \<lparr>stream_type = ''TRADES'', start_block = 0, filters = None, filter_name = None\<rparr>,
        LogStreaming ''TRADES'', Printed (PrintBlockTimestamp 100 0), Printed (PrintJson ''{}''),
        LogError ''reset'']
   \<and> go_sends (fst (go_streamWithFilter sample_zd (\<lambda>bs. sample_json (ascii bs)) filter_env_reset))
     = [filter_subscribe]
   \<and> go_streamWithFilter sample_zd (\<lambda>bs. sample_json (ascii bs)) filter_env_reset
     = ([GoDial, GoOpenStream, GoSend filter_subscribe, GoLogStreaming, GoPrinted (PrintBlock 100),
         GoPrinted (PrintJson ''{}''), GoClose],
        GoReturn (Some (StatusErr DATA_LOSS ''reinitialized'')))"
proof -
  note T = subscribe_once_without_cursor
    [where zd = sample_zd and ?utf8.0 = ascii and parse = sample_json and streamType = "''TRADES''"
       and fs = "[]"
       and events = "[Response (Data \<lparr>block_number = 100, timestamp = 0, payload = Buffer [0x7B, 0x7D]\<rparr>),
                      SdError ''reset'']"
       and gparse = "\<lambda>bs. sample_json (ascii bs)" and env = filter_env_reset]
  from T have a0: "subscribes (streamData sample_zd ascii sample_json ''TRADES'' []
       [Response (Data \<lparr>block_number = 100, timestamp = 0, payload = Buffer [0x7B, 0x7D]\<rparr>), SdError ''reset''])
     = [subscribeRequest ''TRADES'' []]"
    by (rule conjunct1)
  then have a: "subscribes (streamData sample_zd ascii sample_json ''TRADES'' []
       [Response (Data \<lparr>block_number = 100, timestamp = 0, payload = Buffer [0x7B, 0x7D]\<rparr>), SdError ''reset''])
     = [\<lparr>stream_type = ''TRADES'', start_block = 0, filters = None, filter_name = None\<rparr>]"
    by (simp add: subscribeRequest_def)
  have b: "streamData sample_zd ascii sample_json ''TRADES'' []
       [Response (Data \<lparr>block_number = 100, timestamp = 0, payload = Buffer [0x7B, 0x7D]\<rparr>), SdError ''reset'']
     = [WriteSubscribe \<lparr>stream_type = ''TRADES'', start_block = 0, filters = None, filter_name = None\<rparr>,
        LogStreaming ''TRADES'', Printed (PrintBlockTimestamp 100 0), Printed (PrintJson ''{}''),
        LogError ''reset'']"
    by code_simp
  from T have c0: "go_sends (fst (go_streamWithFilter sample_zd (\<lambda>bs. sample_json (ascii bs)) filter_env_reset))
     = (if f_dial_err filter_env_reset = None \<and> f_open_err filter_env_reset = None
           \<and> f_send_err filter_env_reset = None
        then [filter_subscribe] else [])"
    by blast
  then have c: "go_sends (fst (go_streamWithFilter sample_zd (\<lambda>bs. sample_json (ascii bs)) filter_env_reset))
     = [filter_subscribe]"
    by (simp add: filter_env_reset_def)
  have d: "go_streamWithFilter sample_zd (\<lambda>bs. sample_json (ascii bs)) filter_env_reset
     = ([GoDial, GoOpenStream, GoSend filter_subscribe, GoLogStreaming, GoPrinted (PrintBlock 100),
         GoPrinted (PrintJson ''{}''), GoClose],
        GoReturn (Some (StatusErr DATA_LOSS ''reinitialized'')))"
    by code_simp
  show ?thesis by (intro conjI; fact)
qed

text \<open>The claim as written fails at the one resume of the code. The order book stream
  delivers block 100 and then fails with \<open>DATA_LOSS\<close>, a recoverable error; the stream is
  opened again and delivers block 150. The resume rule gives start position 101; the
  request of the resume has no start position, in Go and in JavaScript, and block 150 is
  displayed without any notification of a gap.\<close>

theorem resume_without_cursor_counterexample:
  "spec_start_position 0 100 = 101
   \<and> fst (go_streamL2Orderbook ''BTC'' 20 [go_lost_after_100, go_streaming_150])
       = [Dial, LogConnecting, OpenStream ''BTC'' 20, LogFirstUpdate,
          Display \<lparr>l2_block = 100, l2_time = 0, l2_coin = ''BTC''\<rparr> 1,
          LogReinitialized ''reinitialized'', LogWaiting 2000000000, Sleep 2000000000, CloseConn,
          Dial, LogReconnecting 2 10, OpenStream ''BTC'' 20, LogFirstUpdate,
          Display \<lparr>l2_block = 150, l2_time = 0, l2_coin = ''BTC''\<rparr> 1]
   \<and> observe (fst (go_streamL2Orderbook ''BTC'' 20 [go_lost_after_100, go_streaming_150]))
       = [SubscribeIntent None, SubscribeIntent None]
   \<and> observe (concat (map snd (js_session ''BTC'' 20 True 1 [lost_after_100, streaming_150])))
       = [SubscribeIntent None, SubscribeIntent None]
   \<and> SubscribeIntent (Some (spec_start_position 0 100))
       \<notin> set (observe (fst (go_streamL2Orderbook ''BTC'' 20 [go_lost_after_100, go_streaming_150])))
   \<and> SubscribeIntent (Some (spec_start_position 0 100))
       \<notin> set (observe (concat (map snd (js_session ''BTC'' 20 True 1 [lost_after_100, streaming_150]))))"
  by (simp add: spec_start_position_def go_streamL2Orderbook_def go_lost_after_100_def go_streaming_150_def
      maxRetries_def hello_def backoff_def go_baseDelay_def
      streamL2Orderbook_def lost_after_100_def streaming_150_def on_error_def on_update_def
      baseDelay_def Let_def)

end
